theory Spec2Isabelle
  imports Complex_Main "HOL-Library.Word"
begin

unbundle bit_operations_syntax

section \<open>Numbers of the renderer\<close>

text \<open>
  The C++ type \<open>real\<close> (float or double, chosen by \<open>USE_DOUBLE\<close>) and the types
  \<open>float\<close> and \<open>double\<close> are modelled by one type of values: the IEEE special values
  NaN, minus infinity and plus infinity, and the finite values as real numbers. The
  comparisons and the special-value rules of the arithmetic are those of IEEE 754;
  on finite values the arithmetic is exact (rounding, overflow to infinity, underflow
  to zero and the sign of zero are not modelled, and a finite division by zero takes
  zero as positive).
  Conversions between \<open>float\<close>, \<open>double\<close> and \<open>real\<close> are the identity.
\<close>

datatype freal = NaN | NInf | Fin real | PInf

text \<open>The C++ operator \<open><\<close>: false whenever an operand is NaN.\<close>

fun fless :: "freal \<Rightarrow> freal \<Rightarrow> bool" where
  "fless (Fin a) (Fin b) = (a < b)"
| "fless NInf (Fin b) = True"
| "fless NInf PInf = True"
| "fless (Fin a) PInf = True"
| "fless _ _ = False"

text \<open>The C++ operator \<open><=\<close>.\<close>

fun fle :: "freal \<Rightarrow> freal \<Rightarrow> bool" where
  "fle (Fin a) (Fin b) = (a \<le> b)"
| "fle NaN _ = False"
| "fle _ NaN = False"
| "fle NInf _ = True"
| "fle _ PInf = True"
| "fle _ _ = False"

text \<open>The C++ operators \<open>>\<close> and \<open>>=\<close>.\<close>

definition fgreater :: "freal \<Rightarrow> freal \<Rightarrow> bool" where
  "fgreater a b = fless b a"

definition fge :: "freal \<Rightarrow> freal \<Rightarrow> bool" where
  "fge a b = fle b a"

fun fneg :: "freal \<Rightarrow> freal" where
  "fneg NaN = NaN"
| "fneg NInf = PInf"
| "fneg (Fin a) = Fin (- a)"
| "fneg PInf = NInf"

fun fadd :: "freal \<Rightarrow> freal \<Rightarrow> freal" where
  "fadd (Fin a) (Fin b) = Fin (a + b)"
| "fadd NaN _ = NaN"
| "fadd _ NaN = NaN"
| "fadd PInf NInf = NaN"
| "fadd NInf PInf = NaN"
| "fadd PInf _ = PInf"
| "fadd _ PInf = PInf"
| "fadd NInf _ = NInf"
| "fadd _ NInf = NInf"

definition fsub :: "freal \<Rightarrow> freal \<Rightarrow> freal" where
  "fsub a b = fadd a (fneg b)"

fun fmul :: "freal \<Rightarrow> freal \<Rightarrow> freal" where
  "fmul (Fin a) (Fin b) = Fin (a * b)"
| "fmul NaN _ = NaN"
| "fmul _ NaN = NaN"
| "fmul (Fin a) PInf = (if a = 0 then NaN else if 0 < a then PInf else NInf)"
| "fmul (Fin a) NInf = (if a = 0 then NaN else if 0 < a then NInf else PInf)"
| "fmul PInf (Fin b) = (if b = 0 then NaN else if 0 < b then PInf else NInf)"
| "fmul NInf (Fin b) = (if b = 0 then NaN else if 0 < b then NInf else PInf)"
| "fmul PInf PInf = PInf"
| "fmul PInf NInf = NInf"
| "fmul NInf PInf = NInf"
| "fmul NInf NInf = PInf"

fun fdiv :: "freal \<Rightarrow> freal \<Rightarrow> freal" where
  "fdiv (Fin a) (Fin b) =
     (if b = 0 then (if a = 0 then NaN else if 0 < a then PInf else NInf)
      else Fin (a / b))"
| "fdiv NaN _ = NaN"
| "fdiv _ NaN = NaN"
| "fdiv (Fin a) _ = Fin 0"
| "fdiv PInf (Fin b) = (if 0 \<le> b then PInf else NInf)"
| "fdiv NInf (Fin b) = (if 0 \<le> b then NInf else PInf)"
| "fdiv _ _ = NaN"

fun fsqrt :: "freal \<Rightarrow> freal" where
  "fsqrt (Fin a) = (if a < 0 then NaN else Fin (sqrt a))"
| "fsqrt PInf = PInf"
| "fsqrt _ = NaN"

fun fcos :: "freal \<Rightarrow> freal" where
  "fcos (Fin a) = Fin (cos a)"
| "fcos _ = NaN"

fun fsin :: "freal \<Rightarrow> freal" where
  "fsin (Fin a) = Fin (sin a)"
| "fsin _ = NaN"

fun ftan :: "freal \<Rightarrow> freal" where
  "ftan (Fin a) = Fin (tan a)"
| "ftan _ = NaN"

text \<open>
  \<open>std::max(a, b)\<close> is \<open>(a < b) ? b : a\<close> and \<open>std::min(a, b)\<close> is
  \<open>(b < a) ? b : a\<close>: with a NaN operand both return the first argument.
\<close>

definition fmax :: "freal \<Rightarrow> freal \<Rightarrow> freal" where
  "fmax a b = (if fless a b then b else a)"

definition fmin :: "freal \<Rightarrow> freal \<Rightarrow> freal" where
  "fmin a b = (if fless b a then b else a)"

text \<open>Conversion of an \<open>int\<close> to a floating-point value.\<close>

definition of_int_f :: "int \<Rightarrow> freal" where
  "of_int_f i = Fin (of_int i)"

text \<open>
  Modelled from the spec: \<open>real_inf\<close> is declared outside the file; the spec calls
  the distance of a miss "effectively +infinity".
\<close>

definition real_inf :: freal where
  "real_inf = PInf"

text \<open>
  Modelled from the spec: \<open>DoubleOneMinusEpsilon\<close> is declared outside the file; the spec
  gives it as \<open>1 - \<epsilon>\<close> with \<open>\<epsilon>\<close> about \<open>2^-53\<close>, the largest double below 1.
\<close>

definition DoubleOneMinusEpsilon :: freal where
  "DoubleOneMinusEpsilon = Fin (1 - 1 / 2 ^ 53)"

section \<open>Vectors, rays and scene objects\<close>

text \<open>
  Modelled from the spec: the vector types \<open>vec3f\<close> and \<open>vec3r\<close>, their operators and
  \<open>dot\<close>, \<open>cross\<close> and \<open>normalise\<close> are declared outside the file. The spec gives a
  vector as three reals with componentwise arithmetic and no other behaviour.
\<close>

datatype vec3 = Vec3 (vx: freal) (vy: freal) (vz: freal)

definition vec_of :: "freal \<Rightarrow> vec3" where
  "vec_of s = Vec3 s s s"

definition vadd :: "vec3 \<Rightarrow> vec3 \<Rightarrow> vec3" where
  "vadd a b = Vec3 (fadd (vx a) (vx b)) (fadd (vy a) (vy b)) (fadd (vz a) (vz b))"

definition vsub :: "vec3 \<Rightarrow> vec3 \<Rightarrow> vec3" where
  "vsub a b = Vec3 (fsub (vx a) (vx b)) (fsub (vy a) (vy b)) (fsub (vz a) (vz b))"

definition vmul :: "vec3 \<Rightarrow> vec3 \<Rightarrow> vec3" where
  "vmul a b = Vec3 (fmul (vx a) (vx b)) (fmul (vy a) (vy b)) (fmul (vz a) (vz b))"

definition vscale :: "vec3 \<Rightarrow> freal \<Rightarrow> vec3" where
  "vscale a s = Vec3 (fmul (vx a) s) (fmul (vy a) s) (fmul (vz a) s)"

definition vdivs :: "vec3 \<Rightarrow> freal \<Rightarrow> vec3" where
  "vdivs a s = Vec3 (fdiv (vx a) s) (fdiv (vy a) s) (fdiv (vz a) s)"

definition dot :: "vec3 \<Rightarrow> vec3 \<Rightarrow> freal" where
  "dot a b = fadd (fadd (fmul (vx a) (vx b)) (fmul (vy a) (vy b))) (fmul (vz a) (vz b))"

definition cross :: "vec3 \<Rightarrow> vec3 \<Rightarrow> vec3" where
  "cross a b = Vec3 (fsub (fmul (vy a) (vz b)) (fmul (vz a) (vy b)))
                    (fsub (fmul (vz a) (vx b)) (fmul (vx a) (vz b)))
                    (fsub (fmul (vx a) (vy b)) (fmul (vy a) (vx b)))"

definition normalise :: "vec3 \<Rightarrow> vec3" where
  "normalise v = vscale v (fdiv (Fin 1) (fsqrt (dot v v)))"

text \<open>A ray: origin \<open>o\<close> and direction \<open>d\<close> (the field names are taken by HOL).\<close>

datatype Ray = Ray (ray_o: vec3) (ray_d: vec3)

text \<open>
  \<open>SceneObject\<close> is declared outside the file. The code uses the virtual functions
  \<open>intersect\<close> and \<open>getNormal\<close> and the field \<open>colour\<close>; an object is the record of
  the three.
\<close>

record SceneObject =
  intersect :: "Ray \<Rightarrow> freal"
  getNormal :: "vec3 \<Rightarrow> vec3"
  colour :: vec3

record Scene =
  objects :: "SceneObject list"

section \<open>Nearest intersection\<close>

text \<open>
  The loop of \<open>Scene::nearestIntersection\<close> over \<open>objects\<close>, with the pair
  \<open>(nearest_obj, nearest_t)\<close> as its state; \<open>None\<close> is \<open>nullptr\<close>.
  \<open>ray_epsilon\<close> is declared outside the file and is a parameter.
\<close>

fun nearest_loop ::
  "freal \<Rightarrow> Ray \<Rightarrow> SceneObject list \<Rightarrow> SceneObject option \<times> freal \<Rightarrow> SceneObject option \<times> freal"
where
  "nearest_loop ray_epsilon r [] (nearest_obj, nearest_t) = (nearest_obj, nearest_t)"
| "nearest_loop ray_epsilon r (ob # rest) (nearest_obj, nearest_t) =
     (let hit_t = intersect ob r in
      if fgreater hit_t ray_epsilon \<and> fless hit_t nearest_t
      then nearest_loop ray_epsilon r rest (Some ob, hit_t)
      else nearest_loop ray_epsilon r rest (nearest_obj, nearest_t))"

definition nearestIntersection :: "freal \<Rightarrow> Scene \<Rightarrow> Ray \<Rightarrow> SceneObject option \<times> freal" where
  "nearestIntersection ray_epsilon world r =
     nearest_loop ray_epsilon r (objects world) (None, real_inf)"

text \<open>The distance that object \<open>i\<close> of a list of objects reports for the ray \<open>r\<close>.\<close>

definition hit_of :: "Ray \<Rightarrow> SceneObject list \<Rightarrow> nat \<Rightarrow> freal" where
  "hit_of r obs i = intersect (obs ! i) r"

section \<open>The sampler\<close>

text \<open>
  \<open>hash\<close>: Thomas Wang's integer hash on \<open>uint32_t\<close>; every operation wraps modulo
  \<open>2^32\<close>, \<open><<\<close> is \<open>push_bit\<close> and \<open>>>\<close> is \<open>drop_bit\<close>.
\<close>

definition hash :: "32 word \<Rightarrow> 32 word" where
  "hash x0 =
     (let x1 = (x0 XOR 12345391) * 2654435769;
          x2 = x1 XOR (push_bit 6 x1 XOR drop_bit 26 x1);
          x3 = x2 * 2654435769;
          x4 = x3 + (push_bit 5 x3 XOR drop_bit 12 x3)
      in x4)"

text \<open>
  The hash as the spec words it, on natural numbers below \<open>2^32\<close>: multiply, xor-shift,
  multiply, add-shift, with the multiplier 2654435769, the xor constant 12345391, the
  shifts 6, 26, 5 and 12, each result reduced modulo \<open>2^32\<close>.
\<close>

definition integerHash :: "nat \<Rightarrow> nat" where
  "integerHash n =
     (let x1 = ((n XOR 12345391) * 2654435769) mod 2 ^ 32;
          x2 = x1 XOR (((x1 * 2 ^ 6) mod 2 ^ 32) XOR (x1 div 2 ^ 26));
          x3 = (x2 * 2654435769) mod 2 ^ 32;
          x4 = (x3 + (((x3 * 2 ^ 5) mod 2 ^ 32) XOR (x3 div 2 ^ 12))) mod 2 ^ 32
      in x4)"

text \<open>C++ division of \<open>int\<close> truncates towards zero.\<close>

definition trunc_div :: "int \<Rightarrow> int \<Rightarrow> int" where
  "trunc_div a b =
     (if (a < 0) = (b < 0) then \<bar>a\<bar> div \<bar>b\<bar> else - (\<bar>a\<bar> div \<bar>b\<bar>))"

text \<open>A value of \<open>int\<close> after two's complement wrap-around to 32 bits.\<close>

definition wrap_int32 :: "int \<Rightarrow> int" where
  "wrap_int32 i = (i + 2 ^ 31) mod 2 ^ 32 - 2 ^ 31"

text \<open>
  The \<open>while (a)\<close> loop of \<open>RadicalInverse\<close>, with the state \<open>a\<close>, \<open>reversedDigits\<close>,
  \<open>invBaseN\<close>. The loop need not terminate (for the base 1 it does not), and the integer
  division by a zero base yields no value: both are the result \<open>None\<close>. The quotient and
  the digit cannot overflow; \<open>reversedDigits\<close> can, and wraps.
\<close>

partial_function (option) RadicalInverse_loop ::
  "freal \<Rightarrow> int \<Rightarrow> int \<Rightarrow> int \<Rightarrow> freal \<Rightarrow> (int \<times> freal) option"
where
  "RadicalInverse_loop invBase base a reversedDigits invBaseN =
     (if a = 0 then Some (reversedDigits, invBaseN)
      else if base = 0 then None
      else let next = trunc_div a base;
               digit = a - base * next
           in RadicalInverse_loop invBase base next
                (wrap_int32 (reversedDigits * base + digit)) (fmul invBaseN invBase))"

definition RadicalInverse :: "int \<Rightarrow> int \<Rightarrow> freal option" where
  "RadicalInverse a base =
     (let invBase = fdiv (Fin 1) (of_int_f base) in
      case RadicalInverse_loop invBase base a 0 (Fin 1) of
        None \<Rightarrow> None
      | Some (reversedDigits, invBaseN) \<Rightarrow>
          Some (fmin (fmul (of_int_f reversedDigits) invBaseN) DoubleOneMinusEpsilon))"

text \<open>
  The radical inverse as the spec words it: the digits of the index in the base, least
  significant first, read as the fraction \<open>0.d0 d1 d2 ...\<close> in that base. The value of
  the digits read as an integer in reversed order is \<open>reversed_value\<close>.
\<close>

fun digits_of :: "nat \<Rightarrow> nat \<Rightarrow> nat list" where
  "digits_of b n = (if n = 0 \<or> b < 2 then [] else (n mod b) # digits_of b (n div b))"

declare digits_of.simps [simp del]

fun fraction_of :: "nat \<Rightarrow> nat list \<Rightarrow> real" where
  "fraction_of b [] = 0"
| "fraction_of b (d # ds) = (real d + fraction_of b ds) / real b"

fun reversed_value :: "nat \<Rightarrow> nat \<Rightarrow> nat list \<Rightarrow> nat" where
  "reversed_value b acc [] = acc"
| "reversed_value b acc (d # ds) = reversed_value b (acc * b + d) ds"

definition radicalInverse :: "nat \<Rightarrow> nat \<Rightarrow> real" where
  "radicalInverse n b = fraction_of b (digits_of b n)"

text \<open>
  The value of a \<open>float\<close> with the given bits (IEEE 754 binary32), for the union of
  \<open>uintToUnitReal\<close>.
\<close>

definition float_of_bits :: "32 word \<Rightarrow> freal" where
  "float_of_bits w =
     (let s = bit w 31;
          e = unat (drop_bit 23 w AND 255);
          m = unat (w AND 8388607)
      in if e = 255 then (if m = 0 then (if s then NInf else PInf) else NaN)
         else let mag = (if e = 0 then real m / 2 ^ 23 / 2 ^ 126
                         else (1 + real m / 2 ^ 23) * 2 ^ e / 2 ^ 127)
              in Fin (if s then - mag else mag))"

text \<open>\<open>USE_DOUBLE\<close> is defined outside the file and is a parameter.\<close>

definition uintToUnitReal :: "bool \<Rightarrow> 32 word \<Rightarrow> freal" where
  "uintToUnitReal USE_DOUBLE v =
     (if USE_DOUBLE then
        (let uint32_double_scale = fdiv (Fin 1) (Fin (2 ^ 32))
         in fmul (Fin (real (unat v))) uint32_double_scale)
      else
        (let x_u = drop_bit 9 v OR 1065353216;
             x_f = float_of_bits x_u
         in fsub x_f (Fin 1)))"

definition wrap01 :: "freal \<Rightarrow> freal \<Rightarrow> freal" where
  "wrap01 u v = (if fless (fadd u v) (Fin 1) then fadd u v else fsub (fadd u v) (Fin 1))"

section \<open>The colour of a pixel\<close>

text \<open>
  The constants of \<open>generateColour\<close>. The bounce counter starts at 0 and is only
  incremented, at most \<open>max_bounces + 1\<close> times, so it is a natural number.
\<close>

definition max_bounces :: nat where
  "max_bounces = 3"

definition num_primes :: nat where
  "num_primes = 6"

definition primes :: "int list" where
  "primes = [2, 3, 5, 7, 11, 13]"

text \<open>The float literal \<open>3.14159265359f\<close>, taken at its decimal value.\<close>

definition pi_f :: freal where
  "pi_f = Fin (314159265359 / 100000000000)"

definition light_pos :: vec3 where
  "light_pos = Vec3 (Fin 8) (Fin 12) (Fin (- 6))"

text \<open>
  Line 104: the pixel index is computed in \<open>int\<close> and converted to \<open>uint32_t\<close>, which
  is its value modulo \<open>2^32\<close>.
\<close>

definition hash_random :: "bool \<Rightarrow> int \<Rightarrow> int \<Rightarrow> int \<Rightarrow> int \<Rightarrow> int \<Rightarrow> freal" where
  "hash_random USE_DOUBLE x y frame width height =
     uintToUnitReal USE_DOUBLE (hash (word_of_int (frame * width * height + y * width + x)))"

text \<open>Lines 95 to 122: the camera and the ray through the pixel.\<close>

definition camera_ray ::
  "bool \<Rightarrow> int \<Rightarrow> int \<Rightarrow> int \<Rightarrow> int \<Rightarrow> int \<Rightarrow> int \<Rightarrow> int \<Rightarrow> Ray option"
where
  "camera_ray USE_DOUBLE x y frame pass width height frames =
     (let aspect_ratio = fdiv (of_int_f width) (of_int_f height);
          fov_deg = Fin 80;
          fov_rad = fdiv (fmul fov_deg pi_f) (Fin 180);
          sensor_width = fmul (Fin 2) (ftan (fdiv fov_rad (Fin 2)));
          sensor_height = fdiv sensor_width aspect_ratio;
          cam_lookat = Vec3 (Fin 0) (Fin 0) (Fin 0);
          world_up = Vec3 (Fin 0) (Fin 1) (Fin 0);
          hash_rnd = hash_random USE_DOUBLE x y frame width height
      in case RadicalInverse pass (primes ! 0) of None \<Rightarrow> None | Some ri_x \<Rightarrow>
         case RadicalInverse pass (primes ! 1) of None \<Rightarrow> None | Some ri_y \<Rightarrow>
         case RadicalInverse pass (primes ! 2) of None \<Rightarrow> None | Some ri_t \<Rightarrow>
         (let pixel_sample_x = wrap01 ri_x hash_rnd;
              pixel_sample_y = wrap01 ri_y hash_rnd;
              pixel_sample_t = wrap01 ri_t hash_rnd;
              time = (if frames \<le> 0 then Fin 0
                      else fdiv (fmul (fmul (Fin 2) pi_f) (fadd (of_int_f frame) pixel_sample_t))
                                (of_int_f frames));
              cos_t = fcos time;
              sin_t = fsin time;
              cam_pos = vscale (Vec3 (fadd (fmul (Fin 4) cos_t) (fmul (Fin 10) sin_t))
                                     (Fin 5)
                                     (fadd (fmul (Fin (- 10)) cos_t) (fmul (Fin 4) sin_t)))
                               (Fin (1 / 4));
              cam_forward = normalise (vsub cam_lookat cam_pos);
              cam_right = cross world_up cam_forward;
              cam_up = cross cam_forward cam_right;
              pixel_x = vscale cam_right (fdiv sensor_width (of_int_f width));
              pixel_y = vscale cam_up (fneg (fdiv sensor_height (of_int_f height)));
              pixel_v = vadd (vadd cam_forward
                          (vscale pixel_x (fadd (fsub (of_int_f x) (fmul (of_int_f width) (Fin (1 / 2))))
                                                pixel_sample_x)))
                          (vscale pixel_y (fadd (fsub (of_int_f y) (fmul (of_int_f height) (Fin (1 / 2))))
                                                pixel_sample_y))
          in Some (Ray cam_pos (normalise pixel_v))))"

text \<open>Lines 137 to 139: the colour of the sky in the direction of a ray that hits nothing.\<close>

definition sky_colour :: "vec3 \<Rightarrow> vec3" where
  "sky_colour ray_dir =
     (let sky_up = vscale (Vec3 (Fin (2 / 100)) (Fin (5 / 100)) (Fin (1 / 10))) (Fin 2);
          sky_hz = vscale (Vec3 (Fin (5 / 100)) (Fin (7 / 100)) (Fin (1 / 10))) (Fin 2);
          sky = vadd sky_hz (vscale (vsub sky_up sky_hz) (fmax (Fin 0) (vy ray_dir)))
      in sky)"

text \<open>
  Lines 150 to 171: the direct lighting at a hit point. The result is the contribution
  after the block.
\<close>

definition direct_lighting ::
  "freal \<Rightarrow> Scene \<Rightarrow> SceneObject \<Rightarrow> vec3 \<Rightarrow> vec3 \<Rightarrow> vec3 \<Rightarrow> vec3 \<Rightarrow> vec3"
where
  "direct_lighting ray_epsilon world nearest_hit_obj hit_p normal throughput contribution =
     (let light_vec = vsub light_pos hit_p;
          light_ln2 = dot light_vec light_vec;
          light_len = fsqrt light_ln2;
          light_dir = vscale light_vec (fdiv (Fin 1) light_len);
          n_dot_l = dot normal light_dir;
          refl_colour = vscale (vdivs (vscale (colour nearest_hit_obj) (fmax (Fin 0) n_dot_l))
                                      light_ln2) (Fin 420);
          shadow_ray = Ray hit_p light_dir;
          (shadow_nearest_hit_obj, shadow_nearest_hit_t) =
             nearestIntersection ray_epsilon world shadow_ray
      in if shadow_nearest_hit_obj = None \<or> fge shadow_nearest_hit_t light_len
         then vadd contribution (vmul throughput refl_colour)
         else contribution)"

text \<open>Lines 179 to 187: the point on the unit sphere picked by the two samples.\<close>

definition sphere_point :: "freal \<Rightarrow> freal \<Rightarrow> vec3" where
  "sphere_point refl_sample_x refl_sample_y =
     (let a = fmul refl_sample_x (Fin (6283185307179586476925286766559 / 10 ^ 30));
          s = fmul (Fin 2) (fsqrt (fmax (Fin 0) (fmul refl_sample_y (fsub (Fin 1) refl_sample_y))));
          sphere = Vec3 (fmul (fcos a) s) (fmul (fsin a) s)
                        (fsub (Fin 1) (fmul (Fin 2) refl_sample_y))
      in sphere)"

text \<open>
  One iteration of the \<open>while (true)\<close> loop, lines 130 to 198, on the state \<open>ray\<close>,
  \<open>throughput\<close>, \<open>contribution\<close>, \<open>bounce\<close>: it breaks with the final contribution or
  continues with the next state. \<open>None\<close>: a call of \<open>RadicalInverse\<close> returned no value.
\<close>

datatype loop_step = Break vec3 | Continue Ray vec3 vec3 nat

definition loop_body ::
  "freal \<Rightarrow> Scene \<Rightarrow> int \<Rightarrow> freal \<Rightarrow> Ray \<Rightarrow> vec3 \<Rightarrow> vec3 \<Rightarrow> nat \<Rightarrow> loop_step option"
where
  "loop_body ray_epsilon world pass hash_rnd ray throughput contribution bounce =
     (case nearestIntersection ray_epsilon world ray of
        (None, nearest_hit_t) \<Rightarrow>
          Some (Break (vadd contribution (vmul throughput (sky_colour (ray_d ray)))))
      | (Some nearest_hit_obj, nearest_hit_t) \<Rightarrow>
          (let hit_p = vadd (ray_o ray) (vscale (ray_d ray) nearest_hit_t);
               normal = getNormal nearest_hit_obj hit_p;
               contribution1 = direct_lighting ray_epsilon world nearest_hit_obj hit_p normal
                                 throughput contribution;
               bounce1 = bounce + 1
           in if bounce1 > max_bounces then Some (Break contribution1)
              else
                case RadicalInverse pass (primes ! ((3 + bounce1 * 2 + 0) mod num_primes)) of
                  None \<Rightarrow> None
                | Some ri_x \<Rightarrow>
                case RadicalInverse pass (primes ! ((3 + bounce1 * 2 + 1) mod num_primes)) of
                  None \<Rightarrow> None
                | Some ri_y \<Rightarrow>
                  (let refl_sample_x = wrap01 ri_x hash_rnd;
                       refl_sample_y = wrap01 ri_y hash_rnd;
                       sphere = sphere_point refl_sample_x refl_sample_y;
                       new_dir_cosine = normalise (vadd normal sphere);
                       throughput1 = vmul throughput (colour nearest_hit_obj)
                   in Some (Continue (Ray hit_p new_dir_cosine) throughput1 contribution1 bounce1))))"

lemma loop_body_Continue:
  "loop_body ray_epsilon world pass hash_rnd ray throughput contribution bounce
     = Some (Continue ray' throughput' contribution' bounce')
   \<Longrightarrow> bounce' = bounce + 1 \<and> bounce < max_bounces"
  by (auto simp: loop_body_def Let_def split: prod.splits option.splits if_splits)

text \<open>The \<open>while (true)\<close> loop: it ends at the first \<open>break\<close>.\<close>

function bounce_loop ::
  "freal \<Rightarrow> Scene \<Rightarrow> int \<Rightarrow> freal \<Rightarrow> Ray \<Rightarrow> vec3 \<Rightarrow> vec3 \<Rightarrow> nat \<Rightarrow> vec3 option"
where
  "bounce_loop ray_epsilon world pass hash_rnd ray throughput contribution bounce =
     (case loop_body ray_epsilon world pass hash_rnd ray throughput contribution bounce of
        None \<Rightarrow> None
      | Some (Break result) \<Rightarrow> Some result
      | Some (Continue ray' throughput' contribution' bounce') \<Rightarrow>
          bounce_loop ray_epsilon world pass hash_rnd ray' throughput' contribution' bounce')"
  by pat_completeness auto
termination
  by (relation "measure (\<lambda>(ray_epsilon, world, pass, hash_rnd, ray, throughput, contribution, bounce).
                  max_bounces - bounce)")
     (auto dest: loop_body_Continue)

declare bounce_loop.simps [simp del]

text \<open>
  \<open>generateColour\<close>: the camera ray, then the loop from \<open>throughput = 1\<close>,
  \<open>contribution = 0\<close>, \<open>bounce = 0\<close>.
\<close>

definition generateColour ::
  "bool \<Rightarrow> freal \<Rightarrow> int \<Rightarrow> int \<Rightarrow> int \<Rightarrow> int \<Rightarrow> int \<Rightarrow> int \<Rightarrow> int \<Rightarrow> Scene \<Rightarrow> vec3 option"
where
  "generateColour USE_DOUBLE ray_epsilon x y frame pass width height frames world =
     (case camera_ray USE_DOUBLE x y frame pass width height frames of
        None \<Rightarrow> None
      | Some ray \<Rightarrow>
          bounce_loop ray_epsilon world pass (hash_random USE_DOUBLE x y frame width height)
            ray (vec_of (Fin 1)) (vec_of (Fin 0)) 0)"

text \<open>
  The loop run for at most \<open>n\<close> iterations of its body: \<open>Running\<close> when the body has
  run \<open>n\<close> times without a \<open>break\<close>, \<open>Finished\<close> with the result of the loop otherwise.
\<close>

datatype run_result = Finished "vec3 option" | Running

fun loop_iterations ::
  "nat \<Rightarrow> freal \<Rightarrow> Scene \<Rightarrow> int \<Rightarrow> freal \<Rightarrow> Ray \<Rightarrow> vec3 \<Rightarrow> vec3 \<Rightarrow> nat \<Rightarrow> run_result"
where
  "loop_iterations 0 ray_epsilon world pass hash_rnd ray throughput contribution bounce = Running"
| "loop_iterations (Suc n) ray_epsilon world pass hash_rnd ray throughput contribution bounce =
     (case loop_body ray_epsilon world pass hash_rnd ray throughput contribution bounce of
        None \<Rightarrow> Finished None
      | Some (Break result) \<Rightarrow> Finished (Some result)
      | Some (Continue ray' throughput' contribution' bounce') \<Rightarrow>
          loop_iterations n ray_epsilon world pass hash_rnd ray' throughput' contribution' bounce')"

text \<open>The contribution a step of the loop leaves.\<close>

fun contribution_after :: "loop_step \<Rightarrow> vec3" where
  "contribution_after (Break contribution) = contribution"
| "contribution_after (Continue ray throughput contribution bounce) = contribution"



section \<open>Signs of colours\<close>

text \<open>
  A channel is not negative when the comparison \<open>a < 0\<close> is false: it is a number that
  is at least 0, plus infinity, or NaN. It is non-negative when \<open>0 <= a\<close> is true.
\<close>

definition not_negative :: "freal \<Rightarrow> bool" where
  "not_negative a = (\<not> fless a (Fin 0))"



section \<open>Scenes and rays used as concrete inputs\<close>

definition origin_ray :: Ray where
  "origin_ray = Ray (Vec3 (Fin 0) (Fin 0) (Fin 0)) (Vec3 (Fin 0) (Fin 0) (Fin 1))"

text \<open>An object that reports the distance \<open>t\<close> for every ray, with grey level \<open>g\<close>.\<close>

definition const_object :: "freal \<Rightarrow> real \<Rightarrow> SceneObject" where
  "const_object t g =
     \<lparr> intersect = (\<lambda>r. t), getNormal = (\<lambda>p. Vec3 (Fin 0) (Fin 1) (Fin 0)),
       colour = Vec3 (Fin g) (Fin g) (Fin g) \<rparr>"

definition tie_scene :: Scene where
  "tie_scene = \<lparr> objects = [const_object (Fin 3) 1, const_object (Fin 2) (1/2),
                             const_object (Fin 2) (1/4), const_object PInf 1] \<rparr>"

definition far_scene :: Scene where
  "far_scene = \<lparr> objects = [const_object PInf 1] \<rparr>"

definition enclosed_scene :: Scene where
  "enclosed_scene = \<lparr> objects = [const_object (Fin 1) 1] \<rparr>"

definition empty_scene :: Scene where
  "empty_scene = \<lparr> objects = [] \<rparr>"

text \<open>A ray whose direction is the zero vector.\<close>

definition still_ray :: Ray where
  "still_ray = Ray (Vec3 (Fin 0) (Fin 0) (Fin 0)) (Vec3 (Fin 0) (Fin 0) (Fin 0))"

text \<open>
  A ray that starts two units from the light and points at it, and an object that this
  ray hits at the distance 1, one unit from the light, with its normal towards the light;
  for every other ray, so for the shadow ray from that hit point, the object reports a
  surface at the distance 1/2000.
\<close>

definition near_ray :: Ray where
  "near_ray = Ray (Vec3 (Fin 8) (Fin 12) (Fin (- 8))) (Vec3 (Fin 0) (Fin 0) (Fin 1))"

definition near_object :: SceneObject where
  "near_object =
     \<lparr> intersect = (\<lambda>r. if ray_o r = Vec3 (Fin 8) (Fin 12) (Fin (- 8)) then Fin 1
                         else Fin (1 / 2000)),
       getNormal = (\<lambda>p. Vec3 (Fin 0) (Fin 0) (Fin 1)),
       colour = Vec3 (Fin 1) (Fin 1) (Fin 1) \<rparr>"

definition near_scene :: Scene where
  "near_scene = \<lparr> objects = [near_object] \<rparr>"

text \<open>
  A scene whose one object has the colour 1, reports the finite distance 1 for a ray with
  a numeric origin (and the finite distance -1, a miss, otherwise), and has as its normal
  the unit vector opposite to the sphere point that the samples of the pass 0 at the
  pixel (0, 0) of a 1 x 1 image pick.
\<close>

definition opposite_normal :: vec3 where
  "opposite_normal =
     (let u = wrap01 (Fin 0) (hash_random True 0 0 0 1 1)
      in vscale (sphere_point u u) (Fin (- 1)))"

definition opposite_object :: SceneObject where
  "opposite_object =
     \<lparr> intersect = (\<lambda>r. if vx (ray_o r) = NaN then Fin (- 1) else Fin 1),
       getNormal = (\<lambda>p. opposite_normal),
       colour = Vec3 (Fin 1) (Fin 1) (Fin 1) \<rparr>"


section \<open>Order facts of the comparisons\<close>

lemma fless_not_NaN: "fless a b \<Longrightarrow> a \<noteq> NaN \<and> b \<noteq> NaN"
  by (cases a; cases b) simp_all

lemma fless_trans: "fless a b \<Longrightarrow> fless b c \<Longrightarrow> fless a c"
  by (cases a; cases b; cases c) simp_all

lemma fless_fle_trans: "fless a b \<Longrightarrow> fle b c \<Longrightarrow> fless a c"
  by (cases a; cases b; cases c) simp_all

lemma not_fless_fle: "a \<noteq> NaN \<Longrightarrow> b \<noteq> NaN \<Longrightarrow> \<not> fless a b \<Longrightarrow> fle b a"
  by (cases a; cases b) simp_all

lemma fle_refl: "a \<noteq> NaN \<Longrightarrow> fle a a"
  by (cases a) simp_all

lemma fless_imp_fle: "fless a b \<Longrightarrow> fle a b"
  by (cases a; cases b) simp_all

lemma fless_PInf_iff: "fless a PInf \<longleftrightarrow> a \<noteq> NaN \<and> a \<noteq> PInf"
  by (cases a) simp_all


section \<open>Properties of the nearest intersection\<close>

lemma nearest_loop_char:
  "(\<exists>i < length obs. fless eps (hit_of r obs i) \<and> fless (hit_of r obs i) t0
        \<and> nearest_loop eps r obs (no, t0) = (Some (obs ! i), hit_of r obs i)
        \<and> (\<forall>j < length obs. fless eps (hit_of r obs j) \<longrightarrow> fle (hit_of r obs i) (hit_of r obs j))
        \<and> (\<forall>j < i. fless eps (hit_of r obs j) \<longrightarrow> fless (hit_of r obs i) (hit_of r obs j)))
   \<or> ((\<forall>j < length obs. \<not> (fless eps (hit_of r obs j) \<and> fless (hit_of r obs j) t0))
        \<and> nearest_loop eps r obs (no, t0) = (no, t0))"
proof (induction obs arbitrary: no t0)
  case Nil
  show ?case by simp
next
  case (Cons ob rest)
  let ?h = "intersect ob r"
  have hs: "\<And>j. hit_of r (ob # rest) (Suc j) = hit_of r rest j" "hit_of r (ob # rest) 0 = ?h"
    by (simp_all add: hit_of_def)
  show ?case
  proof (cases "fless eps ?h \<and> fless ?h t0")
    case True
    then have step: "nearest_loop eps r (ob # rest) (no, t0) = nearest_loop eps r rest (Some ob, ?h)"
      by (simp add: fgreater_def)
    from Cons.IH [where no = "Some ob" and ?t0.0 = ?h] show ?thesis
    proof
      assume "\<exists>i<length rest. fless eps (hit_of r rest i) \<and> fless (hit_of r rest i) ?h
        \<and> nearest_loop eps r rest (Some ob, ?h) = (Some (rest ! i), hit_of r rest i)
        \<and> (\<forall>j < length rest. fless eps (hit_of r rest j) \<longrightarrow> fle (hit_of r rest i) (hit_of r rest j))
        \<and> (\<forall>j < i. fless eps (hit_of r rest j) \<longrightarrow> fless (hit_of r rest i) (hit_of r rest j))"
      then obtain i where i: "i < length rest" "fless eps (hit_of r rest i)" "fless (hit_of r rest i) ?h"
        "nearest_loop eps r rest (Some ob, ?h) = (Some (rest ! i), hit_of r rest i)"
        "\<forall>j < length rest. fless eps (hit_of r rest j) \<longrightarrow> fle (hit_of r rest i) (hit_of r rest j)"
        "\<forall>j < i. fless eps (hit_of r rest j) \<longrightarrow> fless (hit_of r rest i) (hit_of r rest j)"
        by blast
      have a: "fless (hit_of r rest i) t0" using i(3) True fless_trans by blast
      have b: "\<forall>j < length (ob # rest). fless eps (hit_of r (ob # rest) j)
                 \<longrightarrow> fle (hit_of r rest i) (hit_of r (ob # rest) j)"
      proof (intro allI impI)
        fix j assume "j < length (ob # rest)" "fless eps (hit_of r (ob # rest) j)"
        then show "fle (hit_of r rest i) (hit_of r (ob # rest) j)"
          using i(3,5) by (cases j) (auto simp: hs fless_imp_fle)
      qed
      have c: "\<forall>j < Suc i. fless eps (hit_of r (ob # rest) j)
                 \<longrightarrow> fless (hit_of r rest i) (hit_of r (ob # rest) j)"
      proof (intro allI impI)
        fix j assume "j < Suc i" "fless eps (hit_of r (ob # rest) j)"
        then show "fless (hit_of r rest i) (hit_of r (ob # rest) j)"
          using i(3,6) by (cases j) (auto simp: hs)
      qed
      have "Suc i < length (ob # rest) \<and> fless eps (hit_of r (ob # rest) (Suc i))
          \<and> fless (hit_of r (ob # rest) (Suc i)) t0
          \<and> nearest_loop eps r (ob # rest) (no, t0) = (Some ((ob # rest) ! Suc i), hit_of r (ob # rest) (Suc i))
          \<and> (\<forall>j < length (ob # rest). fless eps (hit_of r (ob # rest) j) \<longrightarrow> fle (hit_of r (ob # rest) (Suc i)) (hit_of r (ob # rest) j))
          \<and> (\<forall>j < Suc i. fless eps (hit_of r (ob # rest) j) \<longrightarrow> fless (hit_of r (ob # rest) (Suc i)) (hit_of r (ob # rest) j))"
        using i(1,2,4) a b c step by (simp add: hs)
      then show ?thesis by blast
    next
      assume none: "(\<forall>j < length rest. \<not> (fless eps (hit_of r rest j) \<and> fless (hit_of r rest j) ?h))
        \<and> nearest_loop eps r rest (Some ob, ?h) = (Some ob, ?h)"
      have hn: "?h \<noteq> NaN" using True fless_not_NaN by blast
      have b: "\<forall>j < length (ob # rest). fless eps (hit_of r (ob # rest) j)
                 \<longrightarrow> fle ?h (hit_of r (ob # rest) j)"
      proof (intro allI impI)
        fix j assume j: "j < length (ob # rest)" "fless eps (hit_of r (ob # rest) j)"
        show "fle ?h (hit_of r (ob # rest) j)"
        proof (cases j)
          case 0
          then show ?thesis using hn by (simp add: hs fle_refl)
        next
          case (Suc k)
          with j have k: "k < length rest" "fless eps (hit_of r rest k)" by (simp_all add: hs)
          with none have "\<not> fless (hit_of r rest k) ?h" by blast
          moreover have "hit_of r rest k \<noteq> NaN" using k(2) fless_not_NaN by blast
          ultimately show ?thesis using hn Suc by (simp add: hs not_fless_fle)
        qed
      qed
      have "0 < length (ob # rest) \<and> fless eps (hit_of r (ob # rest) 0)
          \<and> fless (hit_of r (ob # rest) 0) t0
          \<and> nearest_loop eps r (ob # rest) (no, t0) = (Some ((ob # rest) ! 0), hit_of r (ob # rest) 0)
          \<and> (\<forall>j < length (ob # rest). fless eps (hit_of r (ob # rest) j) \<longrightarrow> fle (hit_of r (ob # rest) 0) (hit_of r (ob # rest) j))
          \<and> (\<forall>j < (0::nat). fless eps (hit_of r (ob # rest) j) \<longrightarrow> fless (hit_of r (ob # rest) 0) (hit_of r (ob # rest) j))"
        using True none b step by (simp add: hs)
      then show ?thesis by blast
    qed
  next
    case False
    then have step: "nearest_loop eps r (ob # rest) (no, t0) = nearest_loop eps r rest (no, t0)"
      by (auto simp add: fgreater_def)
    from Cons.IH [where no = no and ?t0.0 = t0] show ?thesis
    proof
      assume "\<exists>i<length rest. fless eps (hit_of r rest i) \<and> fless (hit_of r rest i) t0
        \<and> nearest_loop eps r rest (no, t0) = (Some (rest ! i), hit_of r rest i)
        \<and> (\<forall>j < length rest. fless eps (hit_of r rest j) \<longrightarrow> fle (hit_of r rest i) (hit_of r rest j))
        \<and> (\<forall>j < i. fless eps (hit_of r rest j) \<longrightarrow> fless (hit_of r rest i) (hit_of r rest j))"
      then obtain i where i: "i < length rest" "fless eps (hit_of r rest i)" "fless (hit_of r rest i) t0"
        "nearest_loop eps r rest (no, t0) = (Some (rest ! i), hit_of r rest i)"
        "\<forall>j < length rest. fless eps (hit_of r rest j) \<longrightarrow> fle (hit_of r rest i) (hit_of r rest j)"
        "\<forall>j < i. fless eps (hit_of r rest j) \<longrightarrow> fless (hit_of r rest i) (hit_of r rest j)"
        by blast
      have h0: "fless eps ?h \<Longrightarrow> fless (hit_of r rest i) ?h"
      proof -
        assume e: "fless eps ?h"
        with False have "\<not> fless ?h t0" by blast
        moreover have "?h \<noteq> NaN" "t0 \<noteq> NaN" using e i(3) fless_not_NaN by blast+
        ultimately have "fle t0 ?h" by (simp add: not_fless_fle)
        with i(3) show ?thesis using fless_fle_trans by blast
      qed
      have b: "\<forall>j < length (ob # rest). fless eps (hit_of r (ob # rest) j)
                 \<longrightarrow> fle (hit_of r rest i) (hit_of r (ob # rest) j)"
      proof (intro allI impI)
        fix j assume "j < length (ob # rest)" "fless eps (hit_of r (ob # rest) j)"
        then show "fle (hit_of r rest i) (hit_of r (ob # rest) j)"
          using h0 i(5) by (cases j) (auto simp: hs fless_imp_fle)
      qed
      have c: "\<forall>j < Suc i. fless eps (hit_of r (ob # rest) j)
                 \<longrightarrow> fless (hit_of r rest i) (hit_of r (ob # rest) j)"
      proof (intro allI impI)
        fix j assume "j < Suc i" "fless eps (hit_of r (ob # rest) j)"
        then show "fless (hit_of r rest i) (hit_of r (ob # rest) j)"
          using h0 i(6) by (cases j) (auto simp: hs)
      qed
      have "Suc i < length (ob # rest) \<and> fless eps (hit_of r (ob # rest) (Suc i))
          \<and> fless (hit_of r (ob # rest) (Suc i)) t0
          \<and> nearest_loop eps r (ob # rest) (no, t0) = (Some ((ob # rest) ! Suc i), hit_of r (ob # rest) (Suc i))
          \<and> (\<forall>j < length (ob # rest). fless eps (hit_of r (ob # rest) j) \<longrightarrow> fle (hit_of r (ob # rest) (Suc i)) (hit_of r (ob # rest) j))
          \<and> (\<forall>j < Suc i. fless eps (hit_of r (ob # rest) j) \<longrightarrow> fless (hit_of r (ob # rest) (Suc i)) (hit_of r (ob # rest) j))"
        using i(1,2,3,4) b c step by (simp add: hs)
      then show ?thesis by blast
    next
      assume none: "(\<forall>j < length rest. \<not> (fless eps (hit_of r rest j) \<and> fless (hit_of r rest j) t0))
        \<and> nearest_loop eps r rest (no, t0) = (no, t0)"
      have "\<forall>j < length (ob # rest). \<not> (fless eps (hit_of r (ob # rest) j) \<and> fless (hit_of r (ob # rest) j) t0)"
      proof (intro allI impI)
        fix j assume "j < length (ob # rest)"
        then show "\<not> (fless eps (hit_of r (ob # rest) j) \<and> fless (hit_of r (ob # rest) j) t0)"
          using False none by (cases j) (auto simp: hs)
      qed
      with none step show ?thesis by simp
    qed
  qed
qed


text \<open>
  Claim C1, as amended. \<open>nearestIntersection\<close> returns the object whose reported
  distance is the minimum among the objects that report a distance strictly greater than
  \<open>ray_epsilon\<close> and strictly less than \<open>real_inf\<close>, together with that distance: the
  returned distance is at most every reported distance above \<open>ray_epsilon\<close>, and every
  object earlier in the list that reports a distance above \<open>ray_epsilon\<close> reports a
  strictly greater one, so the first object wins an exact tie. If no object reports a
  distance in that range the result is no object and the distance \<open>real_inf\<close>.
\<close>

theorem nearestIntersection_minimum:
  "(\<exists>i < length (objects world).
        fless ray_epsilon (intersect (objects world ! i) r)
      \<and> fless (intersect (objects world ! i) r) real_inf
      \<and> nearestIntersection ray_epsilon world r
          = (Some (objects world ! i), intersect (objects world ! i) r)
      \<and> (\<forall>j < length (objects world). fless ray_epsilon (intersect (objects world ! j) r)
            \<longrightarrow> fle (intersect (objects world ! i) r) (intersect (objects world ! j) r))
      \<and> (\<forall>j < i. fless ray_epsilon (intersect (objects world ! j) r)
            \<longrightarrow> fless (intersect (objects world ! i) r) (intersect (objects world ! j) r)))
   \<or> ((\<forall>j < length (objects world).
          \<not> (fless ray_epsilon (intersect (objects world ! j) r)
             \<and> fless (intersect (objects world ! j) r) real_inf))
      \<and> nearestIntersection ray_epsilon world r = (None, real_inf))"
  using nearest_loop_char [of "objects world" ray_epsilon r real_inf None]
  unfolding nearestIntersection_def hit_of_def by blast

theorem nearestIntersection_minimum_witness:
  "fless (Fin (1/1000)) (intersect (objects tie_scene ! 1) origin_ray)
   \<and> fless (intersect (objects tie_scene ! 1) origin_ray) real_inf
   \<and> intersect (objects tie_scene ! 2) origin_ray = intersect (objects tie_scene ! 1) origin_ray
   \<and> nearestIntersection (Fin (1/1000)) tie_scene origin_ray
       = (Some (const_object (Fin 2) (1/2)), Fin 2)"
  using nearestIntersection_minimum [of tie_scene "Fin (1/1000)" origin_ray]
  by (simp add: tie_scene_def const_object_def nearestIntersection_def real_inf_def fgreater_def Let_def)

text \<open>
  The claim as stated, without the bound by \<open>real_inf\<close>, fails: an object that reports
  plus infinity reports a distance greater than \<open>ray_epsilon\<close>, and it is not returned.
\<close>

theorem nearestIntersection_infinite_counterexample:
  "fgreater (intersect (objects far_scene ! 0) origin_ray) (Fin (1/1000))
   \<and> nearestIntersection (Fin (1/1000)) far_scene origin_ray = (None, real_inf)"
  by (simp add: far_scene_def const_object_def nearestIntersection_def real_inf_def fgreater_def)

text \<open>
  Claim C9, as amended. When \<open>nearestIntersection\<close> returns an object, the distance \<open>t\<close> beside it
  is strictly between \<open>ray_epsilon\<close> and plus infinity (so it is a finite number, above
  \<open>ray_epsilon\<close>), the object is one of the scene and \<open>t\<close> is the value its
  \<open>intersect\<close> returned for the ray. When it returns no object, the distance is plus
  infinity.
\<close>

theorem nearestIntersection_result_range:
  "(nearestIntersection ray_epsilon world r = (Some ob, t) \<longrightarrow>
      fless ray_epsilon t \<and> fless t real_inf
      \<and> (\<exists>x. t = Fin x \<and> (\<forall>e. ray_epsilon = Fin e \<longrightarrow> e < x))
      \<and> (\<exists>i < length (objects world). objects world ! i = ob \<and> intersect ob r = t))
   \<and> (nearestIntersection ray_epsilon world r = (None, t) \<longrightarrow> t = real_inf)"
proof -
  have fin: "\<exists>x. t = Fin x \<and> (\<forall>e. ray_epsilon = Fin e \<longrightarrow> e < x)"
    if "fless ray_epsilon t" "fless t real_inf" for t
    using that by (cases t; cases ray_epsilon) (simp_all add: real_inf_def)
  show ?thesis
    using nearest_loop_char [of "objects world" ray_epsilon r real_inf None] fin
    unfolding nearestIntersection_def hit_of_def by (auto simp: real_inf_def)
qed

theorem nearestIntersection_result_range_witness:
  "nearestIntersection (Fin (1/1000)) tie_scene origin_ray = (Some (const_object (Fin 2) (1/2)), Fin 2)
   \<and> fless (Fin (1/1000)) (Fin 2) \<and> fless (Fin 2) real_inf
   \<and> nearestIntersection (Fin (1/1000)) far_scene origin_ray = (None, real_inf)"
  using nearestIntersection_result_range [of "Fin (1/1000)" tie_scene origin_ray "const_object (Fin 2) (1/2)" "Fin 2"]
    nearestIntersection_result_range [of "Fin (1/1000)" far_scene origin_ray _ real_inf]
  by (simp add: tie_scene_def far_scene_def const_object_def nearestIntersection_def real_inf_def fgreater_def Let_def)


text \<open>
  The claim as stated adds that the hit point, origin plus direction times \<open>t\<close>, lies
  strictly off the ray origin. That fails: for a ray whose direction is the zero vector
  an object is returned with the distance 1 and the hit point is the origin.
\<close>

theorem hit_point_at_origin_counterexample:
  "nearestIntersection (Fin (1 / 1000)) enclosed_scene still_ray
       = (Some (const_object (Fin 1) 1), Fin 1)
   \<and> vadd (ray_o still_ray) (vscale (ray_d still_ray) (Fin 1)) = ray_o still_ray"
  by (simp add: nearestIntersection_def enclosed_scene_def const_object_def fgreater_def
      real_inf_def Let_def still_ray_def vadd_def vscale_def)

section \<open>Properties of the integer hash\<close>

lemma unat_xor32: "unat ((a::32 word) XOR b) = unat a XOR unat b"
  by (simp add: unsigned_xor_eq)

lemma unat_push_bit32:
  "unat (push_bit 6 (a::32 word)) = (unat a * 2 ^ 6) mod 2 ^ 32"
  "unat (push_bit 5 (a::32 word)) = (unat a * 2 ^ 5) mod 2 ^ 32"
  by (simp_all add: push_bit_eq_mult unat_word_ariths)

lemma unat_drop_bit32:
  "unat (drop_bit 26 (a::32 word)) = unat a div 2 ^ 26"
  "unat (drop_bit 12 (a::32 word)) = unat a div 2 ^ 12"
  by (simp_all add: drop_bit_eq_div unat_div)

lemma unat_mult32: "unat ((a::32 word) * b) = (unat a * unat b) mod 2 ^ 32"
  by (simp add: unat_word_ariths)

lemma unat_add32: "unat ((a::32 word) + b) = (unat a + unat b) mod 2 ^ 32"
  by (simp add: unat_word_ariths)

text \<open>
  Claim C6. For every 32-bit input, \<open>hash\<close> computes the mix the spec fixes: xor with
  12345391 and multiply by 2654435769, xor with the shifts by 6 and by 26, multiply by
  2654435769, add the xor of the shifts by 5 and by 12, each step modulo \<open>2^32\<close>. It is a
  function of its input alone, so the same input gives the same output on every call; two
  outputs are given as test values.
\<close>

theorem hash_is_integerHash:
  "unat (hash x) = integerHash (unat x) \<and> hash 0 = 155489619 \<and> hash 1 = 548517411"
proof (intro conjI)
  show "unat (hash x) = integerHash (unat x)"
    unfolding hash_def integerHash_def Let_def
    by (simp only: unat_xor32 unat_push_bit32 unat_drop_bit32 unat_mult32 unat_add32)
       simp
  show "hash 0 = 155489619" by (simp add: hash_def Let_def)
  show "hash 1 = 548517411" by (simp add: hash_def Let_def)
qed

section \<open>Properties of the toroidal addition\<close>

text \<open>
  Claim C8. For \<open>u\<close> and \<open>v\<close> in \<open>[0, 1)\<close>, \<open>wrap01 u v\<close> is \<open>u + v\<close> when that is
  below 1 and \<open>u + v - 1\<close> otherwise, and it lies in \<open>[0, 1)\<close>.
\<close>

theorem wrap01_closed:
  "0 \<le> u \<Longrightarrow> u < 1 \<Longrightarrow> 0 \<le> v \<Longrightarrow> v < 1 \<Longrightarrow>
     wrap01 (Fin u) (Fin v) = Fin (if u + v < 1 then u + v else u + v - 1)
     \<and> fle (Fin 0) (wrap01 (Fin u) (Fin v)) \<and> fless (wrap01 (Fin u) (Fin v)) (Fin 1)"
  by (simp add: wrap01_def fsub_def)

theorem wrap01_closed_witness:
  "(0::real) \<le> 3/4 \<and> (3/4::real) < 1 \<and> (0::real) \<le> 1/2 \<and> (1/2::real) < 1
   \<and> wrap01 (Fin (3/4)) (Fin (1/2)) = Fin (1/4)
   \<and> fle (Fin 0) (wrap01 (Fin (3/4)) (Fin (1/2))) \<and> fless (wrap01 (Fin (3/4)) (Fin (1/2))) (Fin 1)"
  using wrap01_closed [of "3/4" "1/2"] by simp


section \<open>Properties of the radical inverse\<close>

lemma trunc_div_less: "a \<noteq> 0 \<Longrightarrow> 2 \<le> \<bar>b\<bar> \<Longrightarrow> \<bar>trunc_div a b\<bar> < \<bar>a\<bar>"
proof -
  assume a: "a \<noteq> 0" and b: "2 \<le> \<bar>b\<bar>"
  have nn: "0 \<le> \<bar>a\<bar> div \<bar>b\<bar>"
    using b by (simp add: pos_imp_zdiv_nonneg_iff)
  then have "\<bar>trunc_div a b\<bar> = \<bar>a\<bar> div \<bar>b\<bar>"
    by (simp add: trunc_div_def)
  also have "\<dots> < \<bar>a\<bar>" using a b by (intro int_div_less_self) auto
  finally show ?thesis .
qed

lemma RadicalInverse_loop_returns:
  "2 \<le> \<bar>base\<bar> \<Longrightarrow>
     \<exists>rd q'. RadicalInverse_loop (Fin ib) base a rd0 (Fin q) = Some (rd, Fin q')"
proof (induction "nat \<bar>a\<bar>" arbitrary: a rd0 q rule: less_induct)
  case less
  show ?case
  proof (cases "a = 0")
    case True
    then show ?thesis by (subst RadicalInverse_loop.simps) simp
  next
    case False
    have "nat \<bar>trunc_div a base\<bar> < nat \<bar>a\<bar>"
      using trunc_div_less [OF False less.prems] by simp
    from less.hyps [OF this less.prems]
    show ?thesis
      using False less.prems
      by (subst RadicalInverse_loop.simps) (auto simp: Let_def)
  qed
qed

lemma RadicalInverse_loop_finite:
  assumes "RadicalInverse_loop ib base a rd ibn = Some y"
    and "\<exists>i. ib = Fin i" and "\<exists>q. ibn = Fin q"
  shows "\<exists>rd' q'. y = (rd', Fin q')"
proof -
  have "(\<exists>i. ib = Fin i) \<and> (\<exists>q. ibn = Fin q) \<longrightarrow> (\<exists>rd' q'. y = (rd', Fin q'))"
    apply (rule RadicalInverse_loop.raw_induct
        [where P = "\<lambda>ib base a rd ibn y.
             (\<exists>i. ib = Fin i) \<and> (\<exists>q. ibn = Fin q) \<longrightarrow> (\<exists>rd' q'. y = (rd', Fin q'))",
         OF _ assms(1)])
    subgoal premises p for f ib base a rd ibn y
    proof (intro impI)
      assume fin: "(\<exists>i. ib = Fin i) \<and> (\<exists>q. ibn = Fin q)"
      show "\<exists>rd' q'. y = (rd', Fin q')"
      proof (cases "a = 0")
        case True
        with p(2) fin show ?thesis by auto
      next
        case False
        with p(2) have "f ib base (trunc_div a base)
                     (wrap_int32 (rd * base + (a - base * trunc_div a base)))
                     (fmul ibn ib) = Some y"
          by (auto simp: Let_def split: if_splits)
        moreover have "\<exists>q. fmul ibn ib = Fin q" using fin by auto
        ultimately show ?thesis using p(1) fin by blast
      qed
    qed
    done
  with assms(2,3) show ?thesis by blast
qed

lemma fmin_Fin: "fmin (Fin a) (Fin b) = Fin (min a b)"
  by (simp add: fmin_def min_def)

lemma RadicalInverse_below_one:
  assumes "RadicalInverse a base = Some v"
  shows "\<exists>x. v = Fin x \<and> x \<le> 1 - 1 / 2 ^ 53 \<and> x < 1"
proof (cases "a = 0")
  case True
  with assms have "v = Fin 0"
    by (simp add: RadicalInverse_def RadicalInverse_loop.simps of_int_f_def fmin_Fin
        DoubleOneMinusEpsilon_def Let_def)
  then show ?thesis by simp
next
  case False
  show ?thesis
  proof (cases "base = 0")
    case True
    with False have "RadicalInverse_loop (fdiv (Fin 1) (of_int_f base)) base a 0 (Fin 1) = None"
      by (subst RadicalInverse_loop.simps) simp
    with assms show ?thesis by (simp add: RadicalInverse_def Let_def)
  next
    case b: False
    then have ib: "fdiv (Fin 1) (of_int_f base) = Fin (1 / of_int base)"
      by (simp add: of_int_f_def)
    from assms obtain y where y: "RadicalInverse_loop (Fin (1 / of_int base)) base a 0 (Fin 1) = Some y"
      and v: "v = (case y of (rd, ibn) \<Rightarrow> fmin (fmul (of_int_f rd) ibn) DoubleOneMinusEpsilon)"
      by (auto simp: RadicalInverse_def Let_def ib split: option.splits)
    from RadicalInverse_loop_finite [OF y] obtain rd q where "y = (rd, Fin q)" by blast
    with v have "v = Fin (min (of_int rd * q) (1 - 1 / 2 ^ 53))"
      by (simp add: of_int_f_def fmin_Fin DoubleOneMinusEpsilon_def)
    moreover have "min (of_int rd * q) (1 - 1 / 2 ^ 53) \<le> (1 - 1 / 2 ^ 53 :: real)" by simp
    moreover have "(1 - 1 / 2 ^ 53 :: real) < 1" by simp
    ultimately show ?thesis by (metis le_less_trans)
  qed
qed

lemma RadicalInverse_returns:
  assumes "2 \<le> \<bar>base\<bar>"
  shows "\<exists>v. RadicalInverse a base = Some v"
proof -
  have "base \<noteq> 0" using assms by auto
  then have ib: "fdiv (Fin 1) (of_int_f base) = Fin (1 / of_int base)"
    by (simp add: of_int_f_def)
  from RadicalInverse_loop_returns [OF assms, of "1 / of_int base" a 0 1]
  show ?thesis by (auto simp: RadicalInverse_def Let_def ib)
qed

lemma reversed_value_mono: "1 \<le> b \<Longrightarrow> acc \<le> reversed_value b acc ds"
proof (induction ds arbitrary: acc)
  case Nil
  show ?case by simp
next
  case (Cons d ds)
  have "acc \<le> acc * b" using Cons.prems by simp
  also have "\<dots> \<le> acc * b + d" by simp
  also have "\<dots> \<le> reversed_value b (acc * b + d) ds" using Cons.IH [OF Cons.prems] .
  finally show ?case by simp
qed

lemma reversed_value_fraction:
  "0 < b \<Longrightarrow> real (reversed_value b acc ds) / real b ^ length ds = real acc + fraction_of b ds"
proof (induction ds arbitrary: acc)
  case Nil
  show ?case by simp
next
  case (Cons d ds)
  have "real (reversed_value b (acc * b + d) ds) / real b ^ length ds
          = real (acc * b + d) + fraction_of b ds"
    using Cons.IH [OF Cons.prems] .
  moreover have "real (reversed_value b (acc * b + d) ds) / real b ^ length (d # ds)
          = (real (reversed_value b (acc * b + d) ds) / real b ^ length ds) / real b"
    by simp
  ultimately have "real (reversed_value b (acc * b + d) ds) / real b ^ length (d # ds)
          = (real (acc * b + d) + fraction_of b ds) / real b"
    by (simp only:)
  also have "\<dots> = real acc + (real d + fraction_of b ds) / real b"
    using Cons.prems by (simp add: field_simps)
  finally show ?case by simp
qed

lemma wrap_int32_id: "0 \<le> i \<Longrightarrow> i < 2 ^ 31 \<Longrightarrow> wrap_int32 i = i"
  by (simp add: wrap_int32_def)

lemma digits_of_0: "digits_of b 0 = []"
  by (subst digits_of.simps) simp

lemma RadicalInverse_loop_digits:
  "2 \<le> b \<Longrightarrow> reversed_value b r0 (digits_of b n) < 2 ^ 31 \<Longrightarrow>
     RadicalInverse_loop (Fin (1 / real b)) (int b) (int n) (int r0) (Fin q)
       = Some (int (reversed_value b r0 (digits_of b n)), Fin (q / real b ^ length (digits_of b n)))"
proof (induction "n" arbitrary: r0 q rule: less_induct)
  case (less n)
  show ?case
  proof (cases "n = 0")
    case True
    then show ?thesis by (subst RadicalInverse_loop.simps) (simp add: digits_of_0)
  next
    case False
    have ds: "digits_of b n = (n mod b) # digits_of b (n div b)"
      using False less.prems(1) by (subst digits_of.simps) simp
    have lt: "n div b < n" using False less.prems(1) by (intro div_less_dividend) auto
    have td: "trunc_div (int n) (int b) = int (n div b)"
      by (simp add: trunc_div_def zdiv_int)
    have dg: "int n - int b * int (n div b) = int (n mod b)"
      by (metis add_diff_cancel_left' mult_div_mod_eq of_nat_add of_nat_mult)
    have bound: "reversed_value b (r0 * b + n mod b) (digits_of b (n div b)) < 2 ^ 31"
      using less.prems(2) ds by simp
    have "r0 * b + n mod b \<le> reversed_value b (r0 * b + n mod b) (digits_of b (n div b))"
      using reversed_value_mono [of b] less.prems(1) by simp
    with bound have "r0 * b + n mod b < 2 ^ 31" by linarith
    then have "int (r0 * b + n mod b) < 2 ^ 31" by (metis of_nat_less_numeral_power_cancel_iff)
    then have wr: "wrap_int32 (int r0 * int b + int (n mod b)) = int (r0 * b + n mod b)"
      using wrap_int32_id [of "int (r0 * b + n mod b)"] by simp
    have step: "RadicalInverse_loop (Fin (1 / real b)) (int b) (int n) (int r0) (Fin q)
        = RadicalInverse_loop (Fin (1 / real b)) (int b) (int (n div b))
            (int (r0 * b + n mod b)) (Fin (q * (1 / real b)))"
      using False less.prems(1)
      by (subst RadicalInverse_loop.simps) (simp add: Let_def td dg wr)
    show ?thesis
      unfolding step
      using less.IH [OF lt less.prems(1) bound, of "q * (1 / real b)"] ds
      by (simp add: field_simps)
  qed
qed

lemma RadicalInverse_digits:
  assumes "2 \<le> b" "reversed_value b 0 (digits_of b n) < 2 ^ 31"
  shows "RadicalInverse (int n) (int b) = Some (Fin (min (radicalInverse n b) (1 - 1 / 2 ^ 53)))"
proof -
  have ib: "fdiv (Fin 1) (of_int_f (int b)) = Fin (1 / real b)"
    using assms(1) by (simp add: of_int_f_def)
  have "real (reversed_value b 0 (digits_of b n)) * (1 / real b ^ length (digits_of b n))
          = radicalInverse n b"
    using reversed_value_fraction [of b 0 "digits_of b n"] assms(1)
    by (simp add: radicalInverse_def)
  then show ?thesis
    using RadicalInverse_loop_digits [OF assms, of 1] assms(1)
    by (simp add: RadicalInverse_def Let_def ib of_int_f_def fmin_Fin DoubleOneMinusEpsilon_def)
qed


lemma RadicalInverse_1_2: "RadicalInverse 1 2 = Some (Fin (1 / 2))"
  by (simp add: RadicalInverse_def RadicalInverse_loop.simps trunc_div_def wrap_int32_def
      of_int_f_def fmin_def DoubleOneMinusEpsilon_def Let_def)

lemma RadicalInverse_1_3: "RadicalInverse 1 3 = Some (Fin (1 / 3))"
  by (simp add: RadicalInverse_def RadicalInverse_loop.simps trunc_div_def wrap_int32_def
      of_int_f_def fmin_def DoubleOneMinusEpsilon_def Let_def)

lemma RadicalInverse_0: "RadicalInverse 0 base = Some (Fin 0)"
  by (simp add: RadicalInverse_def RadicalInverse_loop.simps of_int_f_def fmin_Fin
      DoubleOneMinusEpsilon_def Let_def)

text \<open>
  Where the accumulator does not overflow, the code computes the radical inverse:
  \<open>RadicalInverse(1, 2)\<close> is \<open>1/2\<close>, \<open>RadicalInverse(1, 3)\<close> is \<open>1/3\<close> in exact
  arithmetic, \<open>RadicalInverse(0, base)\<close> is 0; for a base of absolute value at least 2 the
  call returns a value at most \<open>1 - 2^-53\<close>; and for an index \<open>n \<ge> 0\<close> and a base
  \<open>b \<ge> 2\<close> whose reversed digits are below \<open>2^31\<close> the value is the digits of \<open>n\<close> in
  base \<open>b\<close>, reversed and read as a fraction, capped at \<open>1 - 2^-53\<close>.
\<close>

lemma RadicalInverse_values:
  "RadicalInverse 1 2 = Some (Fin (1 / 2))
   \<and> RadicalInverse 1 3 = Some (Fin (1 / 3))
   \<and> RadicalInverse 0 base = Some (Fin 0)
   \<and> (2 \<le> \<bar>base\<bar> \<longrightarrow>
        (\<exists>x. RadicalInverse a base = Some (Fin x) \<and> x \<le> 1 - 1 / 2 ^ 53 \<and> x < 1))
   \<and> (RadicalInverse a base = Some v \<longrightarrow> (\<exists>x. v = Fin x \<and> x \<le> 1 - 1 / 2 ^ 53 \<and> x < 1))
   \<and> (2 \<le> b \<and> reversed_value b 0 (digits_of b n) < 2 ^ 31 \<longrightarrow>
        RadicalInverse (int n) (int b) = Some (Fin (min (radicalInverse n b) (1 - 1 / 2 ^ 53))))"
proof (intro conjI impI)
  show "RadicalInverse 1 2 = Some (Fin (1 / 2))" by (rule RadicalInverse_1_2)
  show "RadicalInverse 1 3 = Some (Fin (1 / 3))" by (rule RadicalInverse_1_3)
  show "RadicalInverse 0 base = Some (Fin 0)" by (rule RadicalInverse_0)
next
  assume b: "2 \<le> \<bar>base\<bar>"
  from RadicalInverse_returns [OF b, of a] obtain w where w: "RadicalInverse a base = Some w" ..
  from RadicalInverse_below_one [OF w] w
  show "\<exists>x. RadicalInverse a base = Some (Fin x) \<and> x \<le> 1 - 1 / 2 ^ 53 \<and> x < 1" by auto
next
  assume "RadicalInverse a base = Some v"
  then show "\<exists>x. v = Fin x \<and> x \<le> 1 - 1 / 2 ^ 53 \<and> x < 1" by (rule RadicalInverse_below_one)
next
  assume "2 \<le> b \<and> reversed_value b 0 (digits_of b n) < 2 ^ 31"
  then show "RadicalInverse (int n) (int b) = Some (Fin (min (radicalInverse n b) (1 - 1 / 2 ^ 53)))"
    using RadicalInverse_digits by blast
qed

lemma RadicalInverse_loop_step3:
  "0 < a \<Longrightarrow>
     RadicalInverse_loop ib 3 a rd ibn
       = RadicalInverse_loop ib 3 (a div 3) (wrap_int32 (rd * 3 + a mod 3)) (fmul ibn ib)"
proof -
  assume a: "0 < a"
  have td: "trunc_div a 3 = a div 3" using a by (simp add: trunc_div_def)
  have dg: "a - 3 * (a div 3) = a mod 3" by (simp add: minus_mult_div_eq_mod)
  show ?thesis
    using a by (subst RadicalInverse_loop.simps) (simp add: Let_def td dg)
qed

lemma RadicalInverse_loop_stop: "RadicalInverse_loop ib base 0 rd ibn = Some (rd, ibn)"
  by (subst RadicalInverse_loop.simps) simp

lemma RadicalInverse_loop_overflow:
  "RadicalInverse_loop (Fin (1 / 3)) 3 1162261469 0 (Fin 1)
     = Some (- 1970444361, Fin (1 / 3486784401))"
  by (simp add: RadicalInverse_loop_step3 RadicalInverse_loop_stop wrap_int32_def)

lemma digits_of_overflow:
  "digits_of 3 1162261469 = [2, 0, 0, 0, 0, 0, 0, 0, 0, 0, 0, 0, 0, 0, 0, 0, 0, 0, 0, 1]"
  by (simp add: digits_of.simps)

text \<open>
  Claim C5. The claim describes the radical inverse, and the code departs from it where
  its \<open>int\<close> accumulator \<open>reversedDigits\<close> overflows. The index 1162261469 has the
  digits 2, 0, ..., 0, 1 (least significant first) in base 3; reversed they are the
  number 2324522935, above the largest \<open>int\<close>, and read as a fraction they are
  \<open>2324522935 / 3^20\<close>, about 0.667. In the code the last step
  \<open>774840978 * 3 + 1\<close> overflows; wrapped to 32 bits the accumulator is -1970444361 and
  the call returns \<open>-1970444361 / 3^20\<close>, about -0.565, which is not in \<open>[0, 1)\<close>.
\<close>

theorem RadicalInverse_overflow:
  "RadicalInverse 1162261469 3 = Some (Fin (- 1970444361 / 3486784401))
   \<and> radicalInverse 1162261469 3 = 2324522935 / 3486784401
   \<and> reversed_value 3 0 (digits_of 3 1162261469) = 2324522935
   \<and> wrap_int32 2324522935 = - 1970444361"
proof (intro conjI)
  show "RadicalInverse 1162261469 3 = Some (Fin (- 1970444361 / 3486784401))"
    by (simp add: RadicalInverse_def Let_def of_int_f_def RadicalInverse_loop_overflow
        fmin_def DoubleOneMinusEpsilon_def)
  show "radicalInverse 1162261469 3 = 2324522935 / 3486784401"
    by (simp add: radicalInverse_def digits_of_overflow)
  show "reversed_value 3 0 (digits_of 3 1162261469) = 2324522935"
    by (simp add: digits_of_overflow)
  show "wrap_int32 2324522935 = - 1970444361"
    by (simp add: wrap_int32_def)
qed

section \<open>The loop of the integrator returns\<close>

lemma primes_nth: "i < 6 \<Longrightarrow> 2 \<le> \<bar>primes ! i\<bar>"
proof -
  assume "i < 6"
  then consider "i = 0" | "i = 1" | "i = 2" | "i = 3" | "i = 4" | "i = 5" by linarith
  then show ?thesis by cases (simp_all add: primes_def)
qed

lemma RadicalInverse_prime: "i < 6 \<Longrightarrow> \<exists>v. RadicalInverse pass (primes ! i) = Some v"
  using RadicalInverse_returns [OF primes_nth] by blast

lemma camera_ray_returns:
  "\<exists>p v. camera_ray USE_DOUBLE x y frame pass width height frames = Some (Ray p (normalise v))"
proof -
  obtain a where a: "RadicalInverse pass (primes ! 0) = Some a"
    using RadicalInverse_prime [of 0 pass] by auto
  obtain b where b: "RadicalInverse pass (primes ! 1) = Some b"
    using RadicalInverse_prime [of 1 pass] by auto
  obtain c where c: "RadicalInverse pass (primes ! 2) = Some c"
    using RadicalInverse_prime [of 2 pass] by auto
  show ?thesis
    unfolding camera_ray_def Let_def a b c by (simp only: option.case) blast
qed

lemma loop_body_returns:
  "\<exists>s. loop_body ray_epsilon world pass hash_rnd ray throughput contribution bounce = Some s"
proof (cases "nearestIntersection ray_epsilon world ray")
  case (Pair ob t)
  show ?thesis
  proof (cases ob)
    case None
    with Pair show ?thesis by (simp add: loop_body_def)
  next
    case (Some nearest_hit_obj)
    obtain a where a: "RadicalInverse pass (primes ! ((3 + (bounce + 1) * 2 + 0) mod num_primes)) = Some a"
      using RadicalInverse_prime [of "(3 + (bounce + 1) * 2 + 0) mod num_primes" pass]
      by (auto simp: num_primes_def)
    obtain b where b: "RadicalInverse pass (primes ! ((3 + (bounce + 1) * 2 + 1) mod num_primes)) = Some b"
      using RadicalInverse_prime [of "(3 + (bounce + 1) * 2 + 1) mod num_primes" pass]
      by (auto simp: num_primes_def)
    show ?thesis
      using Pair Some a b by (simp add: loop_body_def Let_def)
  qed
qed

lemma bounce_loop_returns:
  "\<exists>res. bounce_loop ray_epsilon world pass hash_rnd ray throughput contribution bounce = Some res"
proof (induction ray_epsilon world pass hash_rnd ray throughput contribution bounce
       rule: bounce_loop.induct)
  case (1 ray_epsilon world pass hash_rnd ray throughput contribution bounce)
  obtain s where s: "loop_body ray_epsilon world pass hash_rnd ray throughput contribution bounce = Some s"
    using loop_body_returns by blast
  show ?case
  proof (cases s)
    case (Break result)
    with s show ?thesis by (subst bounce_loop.simps) simp
  next
    case (Continue ray' throughput' contribution' bounce')
    with s "1.IH" [of s ray' throughput' contribution' bounce']
    show ?thesis by (subst bounce_loop.simps) simp
  qed
qed

lemma generateColour_returns:
  "\<exists>res. generateColour USE_DOUBLE ray_epsilon x y frame pass width height frames world = Some res"
proof -
  obtain p v where "camera_ray USE_DOUBLE x y frame pass width height frames = Some (Ray p (normalise v))"
    using camera_ray_returns by blast
  then show ?thesis
    using bounce_loop_returns by (simp add: generateColour_def)
qed

lemma loop_iterations_enough:
  "1 \<le> n \<Longrightarrow> max_bounces + 1 \<le> n + bounce \<Longrightarrow>
     loop_iterations n ray_epsilon world pass hash_rnd ray throughput contribution bounce
       = Finished (bounce_loop ray_epsilon world pass hash_rnd ray throughput contribution bounce)"
proof (induction n arbitrary: ray throughput contribution bounce)
  case 0
  then show ?case by simp
next
  case (Suc n)
  obtain s where s: "loop_body ray_epsilon world pass hash_rnd ray throughput contribution bounce = Some s"
    using loop_body_returns by blast
  show ?case
  proof (cases s)
    case (Break result)
    with s show ?thesis by (subst bounce_loop.simps) simp
  next
    case (Continue ray' throughput' contribution' bounce')
    with s have b: "bounce' = bounce + 1" "bounce < max_bounces"
      using loop_body_Continue by blast+
    with Suc.prems have "1 \<le> n" "max_bounces + 1 \<le> n + bounce'" by simp_all
    from Suc.IH [OF this] s Continue
    show ?thesis by (subst bounce_loop.simps) simp
  qed
qed

text \<open>If every ray hits an object, the loop has not ended after \<open>max_bounces\<close> iterations.\<close>

lemma loop_iterations_enclosed:
  assumes "\<And>r. fst (nearestIntersection ray_epsilon world r) \<noteq> None"
  shows "n + bounce \<le> max_bounces \<Longrightarrow>
     loop_iterations n ray_epsilon world pass hash_rnd ray throughput contribution bounce = Running"
proof (induction n arbitrary: ray throughput contribution bounce)
  case 0
  show ?case by simp
next
  case (Suc n)
  obtain ob t where ot: "nearestIntersection ray_epsilon world ray = (Some ob, t)"
    using assms [of ray] by (cases "nearestIntersection ray_epsilon world ray") auto
  obtain a where a: "RadicalInverse pass (primes ! ((3 + (bounce + 1) * 2 + 0) mod num_primes)) = Some a"
    using RadicalInverse_prime [of "(3 + (bounce + 1) * 2 + 0) mod num_primes" pass]
    by (auto simp: num_primes_def)
  obtain b where b: "RadicalInverse pass (primes ! ((3 + (bounce + 1) * 2 + 1) mod num_primes)) = Some b"
    using RadicalInverse_prime [of "(3 + (bounce + 1) * 2 + 1) mod num_primes" pass]
    by (auto simp: num_primes_def)
  have "\<exists>ray' throughput' contribution'.
          loop_body ray_epsilon world pass hash_rnd ray throughput contribution bounce
            = Some (Continue ray' throughput' contribution' (bounce + 1))"
    using ot a b Suc.prems by (simp add: loop_body_def Let_def)
  then obtain ray' throughput' contribution' where
    s: "loop_body ray_epsilon world pass hash_rnd ray throughput contribution bounce
            = Some (Continue ray' throughput' contribution' (bounce + 1))" by blast
  have "n + (bounce + 1) \<le> max_bounces" using Suc.prems by simp
  from Suc.IH [OF this] s show ?case by simp
qed


section \<open>Properties of the integrator\<close>

lemma fadd_zero_fmul_one: "fadd (Fin 0) (fmul (Fin 1) a) = a"
  by (cases a) simp_all

lemma vadd_zero_vmul_one: "vadd (vec_of (Fin 0)) (vmul (vec_of (Fin 1)) v) = v"
  by (cases v) (simp add: vadd_def vmul_def vec_of_def fadd_zero_fmul_one)

lemma sky_colour_eq:
  "sky_colour d = Vec3 (fadd (Fin (1 / 10)) (fmul (Fin (- 3 / 50)) (fmax (Fin 0) (vy d))))
                       (fadd (Fin (7 / 50)) (fmul (Fin (- 1 / 25)) (fmax (Fin 0) (vy d))))
                       (fadd (Fin (1 / 5)) (fmul (Fin 0) (fmax (Fin 0) (vy d))))"
  by (simp add: sky_colour_def Let_def vadd_def vsub_def vscale_def fsub_def)

text \<open>
  Claim C2. For every pixel, frame, pass, image size and frame count: when the scene has
  no objects, \<open>nearestIntersection\<close> returns no object for every ray, the camera ray
  exists, and \<open>generateColour\<close> returns exactly the sky colour of that ray's direction
  \<open>d\<close>: the horizon colour \<open>(0.1, 0.14, 0.2)\<close> plus \<open>max(0, d.y)\<close> times the
  difference to the zenith colour \<open>(0.04, 0.1, 0.2)\<close>, with nothing else added.
\<close>

theorem empty_scene_sky:
  "objects world = [] \<Longrightarrow>
     nearestIntersection ray_epsilon world r = (None, real_inf)
     \<and> (\<exists>ray. camera_ray USE_DOUBLE x y frame pass width height frames = Some ray
           \<and> generateColour USE_DOUBLE ray_epsilon x y frame pass width height frames world
               = Some (sky_colour (ray_d ray))
           \<and> sky_colour (ray_d ray)
               = Vec3 (fadd (Fin (1 / 10)) (fmul (Fin (- 3 / 50)) (fmax (Fin 0) (vy (ray_d ray)))))
                      (fadd (Fin (7 / 50)) (fmul (Fin (- 1 / 25)) (fmax (Fin 0) (vy (ray_d ray)))))
                      (fadd (Fin (1 / 5)) (fmul (Fin 0) (fmax (Fin 0) (vy (ray_d ray))))))"
proof -
  assume e: "objects world = []"
  have miss: "nearestIntersection ray_epsilon world r = (None, real_inf)" for r
    using e by (simp add: nearestIntersection_def)
  obtain p v where cr: "camera_ray USE_DOUBLE x y frame pass width height frames = Some (Ray p (normalise v))"
    using camera_ray_returns by blast
  have "bounce_loop ray_epsilon world pass (hash_random USE_DOUBLE x y frame width height)
          (Ray p (normalise v)) (vec_of (Fin 1)) (vec_of (Fin 0)) 0
        = Some (sky_colour (normalise v))"
    by (subst bounce_loop.simps) (simp add: loop_body_def miss vadd_zero_vmul_one)
  with cr have "generateColour USE_DOUBLE ray_epsilon x y frame pass width height frames world
               = Some (sky_colour (ray_d (Ray p (normalise v))))"
    by (simp add: generateColour_def)
  with cr miss sky_colour_eq show ?thesis by blast
qed

theorem empty_scene_sky_witness:
  "objects empty_scene = []
   \<and> nearestIntersection (Fin (1 / 1000)) empty_scene origin_ray = (None, real_inf)
   \<and> (\<exists>ray. camera_ray True 3 2 0 5 8 6 1 = Some ray
         \<and> generateColour True (Fin (1 / 1000)) 3 2 0 5 8 6 1 empty_scene = Some (sky_colour (ray_d ray)))"
  using empty_scene_sky [of empty_scene "Fin (1 / 1000)" origin_ray True 3 2 0 5 8 6 1]
  by (auto simp: empty_scene_def)

text \<open>
  Claim C3. For every input and every scene the loop terminates: started with the bounce
  counter 0, it has ended after at most \<open>max_bounces + 1 = 4\<close> iterations of its body
  (each with one intersection test of the path ray and at most one shadow test), with a
  result, and so has \<open>generateColour\<close>. In a scene where every ray hits an object the
  loop is still running after \<open>max_bounces\<close> iterations, so the bound is reached.
\<close>

theorem bounce_loop_terminates:
  "max_bounces = 3
   \<and> loop_iterations (max_bounces + 1) ray_epsilon world pass hash_rnd ray throughput contribution 0
       = Finished (bounce_loop ray_epsilon world pass hash_rnd ray throughput contribution 0)
   \<and> (\<exists>res. bounce_loop ray_epsilon world pass hash_rnd ray throughput contribution 0 = Some res)
   \<and> (\<exists>res. generateColour USE_DOUBLE ray_epsilon x y frame pass width height frames world = Some res)
   \<and> ((\<forall>r. fst (nearestIntersection ray_epsilon world r) \<noteq> None) \<longrightarrow>
        loop_iterations max_bounces ray_epsilon world pass hash_rnd ray throughput contribution 0
          = Running)"
proof (intro conjI impI)
  show "max_bounces = 3" by (simp add: max_bounces_def)
  show "loop_iterations (max_bounces + 1) ray_epsilon world pass hash_rnd ray throughput contribution 0
       = Finished (bounce_loop ray_epsilon world pass hash_rnd ray throughput contribution 0)"
    by (rule loop_iterations_enough) simp_all
  show "\<exists>res. bounce_loop ray_epsilon world pass hash_rnd ray throughput contribution 0 = Some res"
    by (rule bounce_loop_returns)
  show "\<exists>res. generateColour USE_DOUBLE ray_epsilon x y frame pass width height frames world = Some res"
    by (rule generateColour_returns)
next
  assume "\<forall>r. fst (nearestIntersection ray_epsilon world r) \<noteq> None"
  then show "loop_iterations max_bounces ray_epsilon world pass hash_rnd ray throughput contribution 0
          = Running"
    by (intro loop_iterations_enclosed) simp_all
qed

lemma enclosed_scene_hit:
  "nearestIntersection (Fin (1 / 1000)) enclosed_scene r = (Some (const_object (Fin 1) 1), Fin 1)"
  by (simp add: nearestIntersection_def enclosed_scene_def const_object_def fgreater_def
      real_inf_def Let_def)

theorem bounce_loop_terminates_witness:
  "fst (nearestIntersection (Fin (1 / 1000)) enclosed_scene origin_ray) \<noteq> None
   \<and> loop_iterations 3 (Fin (1 / 1000)) enclosed_scene 0 (Fin 0) origin_ray
        (vec_of (Fin 1)) (vec_of (Fin 0)) 0 = Running
   \<and> loop_iterations 4 (Fin (1 / 1000)) enclosed_scene 0 (Fin 0) origin_ray
        (vec_of (Fin 1)) (vec_of (Fin 0)) 0
       = Finished (bounce_loop (Fin (1 / 1000)) enclosed_scene 0 (Fin 0) origin_ray
                     (vec_of (Fin 1)) (vec_of (Fin 0)) 0)"
  using bounce_loop_terminates [of "Fin (1 / 1000)" enclosed_scene 0 "Fin 0" origin_ray
      "vec_of (Fin 1)" "vec_of (Fin 0)" True 0 0 0 1 1 1]
  by (simp add: enclosed_scene_hit max_bounces_def)

text \<open>
  Claim C7. When an iteration of the loop scatters, write \<open>bounce\<close> for the counter at
  the start of the iteration and \<open>b = bounce + 1\<close> for the counter after \<open>++bounce\<close>, the
  value it has at the sampling statements (1, 2 or 3). The new ray starts at the hit point
  and its direction is made from the normal and the sphere point of two samples:
  \<open>RadicalInverse\<close> of the pass in the bases \<open>primes[(3 + 2b) mod 6]\<close> and
  \<open>primes[(3 + 2b + 1) mod 6]\<close> of the list 2, 3, 5, 7, 11, 13 (the bases 13 and 2, then
  3 and 5, then 7 and 11), each combined by \<open>wrap01\<close> with the offset the loop is given,
  which in \<open>generateColour\<close> is the hash of the pixel index mapped to the unit interval.
\<close>

theorem scatter_dimensions:
  "loop_body ray_epsilon world pass hash_rnd ray throughput contribution bounce
       = Some (Continue ray' throughput' contribution' b) \<Longrightarrow>
     primes = [2, 3, 5, 7, 11, 13] \<and> b = bounce + 1 \<and> b \<le> max_bounces
     \<and> (\<exists>ray0. generateColour USE_DOUBLE ray_epsilon x y frame pass width height frames world
                  = bounce_loop ray_epsilon world pass
                      (uintToUnitReal USE_DOUBLE
                         (hash (word_of_int (frame * width * height + y * width + x))))
                      ray0 (vec_of (Fin 1)) (vec_of (Fin 0)) 0)
     \<and> (\<exists>ob t ri_x ri_y.
           nearestIntersection ray_epsilon world ray = (Some ob, t)
         \<and> RadicalInverse pass (primes ! ((3 + 2 * b) mod 6)) = Some ri_x
         \<and> RadicalInverse pass (primes ! ((3 + 2 * b + 1) mod 6)) = Some ri_y
         \<and> ray_o ray' = vadd (ray_o ray) (vscale (ray_d ray) t)
         \<and> ray_d ray' = normalise (vadd (getNormal ob (ray_o ray'))
                            (sphere_point (wrap01 ri_x hash_rnd) (wrap01 ri_y hash_rnd))))
     \<and> (\<exists>ob t ri_x ri_y.
           nearestIntersection ray_epsilon world ray = (Some ob, t)
         \<and> RadicalInverse pass (primes ! ((3 + 2 * (bounce + 1)) mod 6)) = Some ri_x
         \<and> RadicalInverse pass (primes ! ((3 + 2 * (bounce + 1) + 1) mod 6)) = Some ri_y
         \<and> ray_d ray' = normalise (vadd (getNormal ob (ray_o ray'))
                            (sphere_point (wrap01 ri_x hash_rnd) (wrap01 ri_y hash_rnd))))
     \<and> (bounce = 0 \<or> bounce = 1 \<or> bounce = 2)
     \<and> (bounce = 0 \<longrightarrow> primes ! ((3 + 2 * b) mod 6) = 13 \<and> primes ! ((3 + 2 * b + 1) mod 6) = 2)
     \<and> (bounce = 1 \<longrightarrow> primes ! ((3 + 2 * b) mod 6) = 3 \<and> primes ! ((3 + 2 * b + 1) mod 6) = 5)
     \<and> (bounce = 2 \<longrightarrow> primes ! ((3 + 2 * b) mod 6) = 7 \<and> primes ! ((3 + 2 * b + 1) mod 6) = 11)"
proof -
  assume s: "loop_body ray_epsilon world pass hash_rnd ray throughput contribution bounce
       = Some (Continue ray' throughput' contribution' b)"
  obtain p v where "camera_ray USE_DOUBLE x y frame pass width height frames = Some (Ray p (normalise v))"
    using camera_ray_returns by blast
  then have g: "\<exists>ray0. generateColour USE_DOUBLE ray_epsilon x y frame pass width height frames world
                  = bounce_loop ray_epsilon world pass
                      (uintToUnitReal USE_DOUBLE
                         (hash (word_of_int (frame * width * height + y * width + x))))
                      ray0 (vec_of (Fin 1)) (vec_of (Fin 0)) 0"
    by (auto simp: generateColour_def hash_random_def)
  from s have b: "b = bounce + 1" "bounce < max_bounces" using loop_body_Continue by blast+
  from s have m: "primes = [2, 3, 5, 7, 11, 13] \<and> b = bounce + 1 \<and> b \<le> max_bounces
     \<and> (\<exists>ob t ri_x ri_y.
           nearestIntersection ray_epsilon world ray = (Some ob, t)
         \<and> RadicalInverse pass (primes ! ((3 + 2 * b) mod 6)) = Some ri_x
         \<and> RadicalInverse pass (primes ! ((3 + 2 * b + 1) mod 6)) = Some ri_y
         \<and> ray_o ray' = vadd (ray_o ray) (vscale (ray_d ray) t)
         \<and> ray_d ray' = normalise (vadd (getNormal ob (ray_o ray'))
                            (sphere_point (wrap01 ri_x hash_rnd) (wrap01 ri_y hash_rnd))))"
    by (auto simp: loop_body_def Let_def num_primes_def primes_def mult.commute
        split: prod.splits option.splits if_splits)
  then obtain ob t ri_x ri_y where h:
    "nearestIntersection ray_epsilon world ray = (Some ob, t)"
    "RadicalInverse pass (primes ! ((3 + 2 * b) mod 6)) = Some ri_x"
    "RadicalInverse pass (primes ! ((3 + 2 * b + 1) mod 6)) = Some ri_y"
    "ray_d ray' = normalise (vadd (getNormal ob (ray_o ray'))
                            (sphere_point (wrap01 ri_x hash_rnd) (wrap01 ri_y hash_rnd)))"
    by blast
  have e: "\<exists>ob t ri_x ri_y.
           nearestIntersection ray_epsilon world ray = (Some ob, t)
         \<and> RadicalInverse pass (primes ! ((3 + 2 * (bounce + 1)) mod 6)) = Some ri_x
         \<and> RadicalInverse pass (primes ! ((3 + 2 * (bounce + 1) + 1) mod 6)) = Some ri_y
         \<and> ray_d ray' = normalise (vadd (getNormal ob (ray_o ray'))
                            (sphere_point (wrap01 ri_x hash_rnd) (wrap01 ri_y hash_rnd)))"
    using h b(1) by auto
  have c: "bounce = 0 \<or> bounce = 1 \<or> bounce = 2"
    using b(2) by (auto simp: max_bounces_def)
  have t: "(bounce = 0 \<longrightarrow> primes ! ((3 + 2 * b) mod 6) = 13 \<and> primes ! ((3 + 2 * b + 1) mod 6) = 2)
     \<and> (bounce = 1 \<longrightarrow> primes ! ((3 + 2 * b) mod 6) = 3 \<and> primes ! ((3 + 2 * b + 1) mod 6) = 5)
     \<and> (bounce = 2 \<longrightarrow> primes ! ((3 + 2 * b) mod 6) = 7 \<and> primes ! ((3 + 2 * b + 1) mod 6) = 11)"
    using b(1) by (simp add: primes_def)
  from g m e c t show ?thesis by blast
qed

text \<open>
  The first scatter of the pass 5 with the offset 1/4: the samples are those of the bases
  13 and 2, which differ from those of the bases 7 and 11.
\<close>

lemma RadicalInverse_pass5:
  "RadicalInverse 5 13 = Some (Fin (5 / 13))" "RadicalInverse 5 2 = Some (Fin (5 / 8))"
  "RadicalInverse 5 7 = Some (Fin (5 / 7))" "RadicalInverse 5 11 = Some (Fin (5 / 11))"
  "RadicalInverse 5 3 = Some (Fin (7 / 9))" "RadicalInverse 5 5 = Some (Fin (1 / 25))"
  by (simp_all add: RadicalInverse_def RadicalInverse_loop.simps trunc_div_def wrap_int32_def
      of_int_f_def fmin_def DoubleOneMinusEpsilon_def Let_def)

lemma sphere_point_vz: "vz (sphere_point u (Fin v)) = Fin (1 - 2 * v)"
  by (simp add: sphere_point_def Let_def fsub_def)

theorem scatter_dimensions_witness:
  "RadicalInverse 5 13 = Some (Fin (5 / 13)) \<and> RadicalInverse 5 2 = Some (Fin (5 / 8))
   \<and> RadicalInverse 5 7 = Some (Fin (5 / 7)) \<and> RadicalInverse 5 11 = Some (Fin (5 / 11))
   \<and> wrap01 (Fin (5 / 13)) (Fin (1 / 4)) = Fin (33 / 52)
   \<and> wrap01 (Fin (5 / 8)) (Fin (1 / 4)) = Fin (7 / 8)
   \<and> wrap01 (Fin (5 / 11)) (Fin (1 / 4)) = Fin (31 / 44)
   \<and> (\<exists>throughput' contribution'.
        loop_body (Fin (1 / 1000)) enclosed_scene 5 (Fin (1 / 4)) origin_ray
            (vec_of (Fin 1)) (vec_of (Fin 0)) 0
          = Some (Continue
               (Ray (Vec3 (Fin 0) (Fin 0) (Fin 1))
                    (normalise (vadd (Vec3 (Fin 0) (Fin 1) (Fin 0))
                                     (sphere_point (Fin (33 / 52)) (Fin (7 / 8))))))
               throughput' contribution' 1))
   \<and> vz (sphere_point (Fin (33 / 52)) (Fin (7 / 8))) = Fin (- 3 / 4)
   \<and> vz (sphere_point (wrap01 (Fin (5 / 7)) (Fin (1 / 4))) (wrap01 (Fin (5 / 11)) (Fin (1 / 4))))
       = Fin (- 9 / 22)"
proof -
  have w: "wrap01 (Fin (5 / 13)) (Fin (1 / 4)) = Fin (33 / 52)"
    "wrap01 (Fin (5 / 8)) (Fin (1 / 4)) = Fin (7 / 8)"
    "wrap01 (Fin (5 / 11)) (Fin (1 / 4)) = Fin (31 / 44)"
    by (simp_all add: wrap01_def fsub_def)
  have "loop_iterations 1 (Fin (1 / 1000)) enclosed_scene 5 (Fin (1 / 4)) origin_ray
          (vec_of (Fin 1)) (vec_of (Fin 0)) 0 = Running"
    by (rule loop_iterations_enclosed) (simp_all add: enclosed_scene_hit max_bounces_def)
  then obtain ray' throughput' contribution' b where
    s: "loop_body (Fin (1 / 1000)) enclosed_scene 5 (Fin (1 / 4)) origin_ray
            (vec_of (Fin 1)) (vec_of (Fin 0)) 0 = Some (Continue ray' throughput' contribution' b)"
    by (auto split: option.splits loop_step.splits)
  note sd = scatter_dimensions [where USE_DOUBLE = True and x = 0 and y = 0 and frame = 0
      and width = 1 and height = 1 and frames = 1, OF s]
  from sd have b: "b = 1" by simp
  from b have pr: "primes ! ((3 + 2 * b) mod 6) = 13" "primes ! ((3 + 2 * b + 1) mod 6) = 2"
    by (simp_all add: primes_def)
  from sd obtain ob t ri_x ri_y where
    h: "nearestIntersection (Fin (1 / 1000)) enclosed_scene origin_ray = (Some ob, t)"
       "RadicalInverse 5 (primes ! ((3 + 2 * b) mod 6)) = Some ri_x"
       "RadicalInverse 5 (primes ! ((3 + 2 * b + 1) mod 6)) = Some ri_y"
       "ray_o ray' = vadd (ray_o origin_ray) (vscale (ray_d origin_ray) t)"
       "ray_d ray' = normalise (vadd (getNormal ob (ray_o ray'))
                            (sphere_point (wrap01 ri_x (Fin (1 / 4))) (wrap01 ri_y (Fin (1 / 4)))))"
    by blast
  from h(1) have ob: "ob = const_object (Fin 1) 1" "t = Fin 1" by (auto simp: enclosed_scene_hit)
  from h(2,3) pr have ri: "ri_x = Fin (5 / 13)" "ri_y = Fin (5 / 8)"
    by (simp_all add: RadicalInverse_pass5)
  have o: "ray_o ray' = Vec3 (Fin 0) (Fin 0) (Fin 1)"
    using h(4) ob(2) by (simp add: origin_ray_def vadd_def vscale_def)
  have d: "ray_d ray' = normalise (vadd (Vec3 (Fin 0) (Fin 1) (Fin 0))
                                     (sphere_point (Fin (33 / 52)) (Fin (7 / 8))))"
    using h(5) ob(1) ri w by (simp add: const_object_def)
  have "ray' = Ray (Vec3 (Fin 0) (Fin 0) (Fin 1))
                    (normalise (vadd (Vec3 (Fin 0) (Fin 1) (Fin 0))
                                     (sphere_point (Fin (33 / 52)) (Fin (7 / 8)))))"
    using o d by (cases ray') simp
  with s b have "\<exists>throughput' contribution'.
        loop_body (Fin (1 / 1000)) enclosed_scene 5 (Fin (1 / 4)) origin_ray
            (vec_of (Fin 1)) (vec_of (Fin 0)) 0
          = Some (Continue
               (Ray (Vec3 (Fin 0) (Fin 0) (Fin 1))
                    (normalise (vadd (Vec3 (Fin 0) (Fin 1) (Fin 0))
                                     (sphere_point (Fin (33 / 52)) (Fin (7 / 8))))))
               throughput' contribution' 1)"
    by auto
  moreover have "vz (sphere_point (Fin (33 / 52)) (Fin (7 / 8))) = Fin (- 3 / 4)"
    by (simp add: sphere_point_vz)
  moreover have "vz (sphere_point (wrap01 (Fin (5 / 7)) (Fin (1 / 4))) (wrap01 (Fin (5 / 11)) (Fin (1 / 4))))
       = Fin (- 9 / 22)"
    by (simp add: w sphere_point_vz)
  ultimately show ?thesis using w RadicalInverse_pass5 by simp
qed

section \<open>Direct lighting and shadows\<close>

lemma fless_not_fle: "fless a b \<Longrightarrow> \<not> fle b a"
  by (cases a; cases b) simp_all

lemma fle_fless_trans: "fle a b \<Longrightarrow> fless b c \<Longrightarrow> fless a c"
  by (cases a; cases b; cases c) simp_all

lemma nearest_occluded:
  assumes "occ \<in> set (objects world)"
    and "fless ray_epsilon (intersect occ r)" and "fless (intersect occ r) L"
  shows "\<exists>ob t. nearestIntersection ray_epsilon world r = (Some ob, t) \<and> fless t L"
proof -
  from assms(1) obtain j where j: "j < length (objects world)" "objects world ! j = occ"
    by (auto simp: in_set_conv_nth)
  have inf: "fless (intersect occ r) PInf"
    using assms(3) by (cases "intersect occ r"; cases L) simp_all
  from nearest_loop_char [of "objects world" ray_epsilon r PInf None]
  show ?thesis
  proof
    assume "\<exists>i<length (objects world).
       fless ray_epsilon (hit_of r (objects world) i) \<and> fless (hit_of r (objects world) i) PInf \<and>
       nearest_loop ray_epsilon r (objects world) (None, PInf)
         = (Some (objects world ! i), hit_of r (objects world) i) \<and>
       (\<forall>j<length (objects world). fless ray_epsilon (hit_of r (objects world) j) \<longrightarrow>
           fle (hit_of r (objects world) i) (hit_of r (objects world) j)) \<and>
       (\<forall>j<i. fless ray_epsilon (hit_of r (objects world) j) \<longrightarrow>
           fless (hit_of r (objects world) i) (hit_of r (objects world) j))"
    then obtain i where i:
      "nearest_loop ray_epsilon r (objects world) (None, PInf)
         = (Some (objects world ! i), hit_of r (objects world) i)"
      "\<forall>j<length (objects world). fless ray_epsilon (hit_of r (objects world) j) \<longrightarrow>
           fle (hit_of r (objects world) i) (hit_of r (objects world) j)"
      by blast
    from i(2) j assms(2) have "fle (hit_of r (objects world) i) (intersect occ r)"
      by (auto simp: hit_of_def)
    with assms(3) have "fless (hit_of r (objects world) i) L" using fle_fless_trans by blast
    with i(1) show ?thesis by (simp add: nearestIntersection_def real_inf_def)
  next
    assume "(\<forall>j<length (objects world).
        \<not> (fless ray_epsilon (hit_of r (objects world) j) \<and> fless (hit_of r (objects world) j) PInf)) \<and>
      nearest_loop ray_epsilon r (objects world) (None, PInf) = (None, PInf)"
    with j assms(2) inf show ?thesis by (auto simp: hit_of_def)
  qed
qed

lemma loop_body_hit_contribution:
  assumes "nearestIntersection ray_epsilon world ray = (Some ob, t)"
  shows "\<exists>step. loop_body ray_epsilon world pass hash_rnd ray throughput contribution bounce = Some step
     \<and> contribution_after step
         = direct_lighting ray_epsilon world ob (vadd (ray_o ray) (vscale (ray_d ray) t))
             (getNormal ob (vadd (ray_o ray) (vscale (ray_d ray) t))) throughput contribution"
proof -
  obtain step where s: "loop_body ray_epsilon world pass hash_rnd ray throughput contribution bounce = Some step"
    using loop_body_returns by blast
  then have "contribution_after step
         = direct_lighting ray_epsilon world ob (vadd (ray_o ray) (vscale (ray_d ray) t))
             (getNormal ob (vadd (ray_o ray) (vscale (ray_d ray) t))) throughput contribution"
    using assms by (auto simp: loop_body_def Let_def split: option.splits if_splits)
  with s show ?thesis by blast
qed

text \<open>
  Claim C4, as amended. In an iteration whose ray hits an object, the contribution after the iteration
  is the contribution before it plus \<open>throughput * refl_colour\<close>, with \<open>refl_colour\<close> the
  colour of the object times \<open>max(0, normal . light_dir)\<close>, divided by the squared distance
  to the light at \<open>(8, 12, -6)\<close>, times 420, exactly when the nearest intersection of the
  shadow ray (from the hit point towards the light) is no object or lies at a distance at
  or beyond the distance to the light; otherwise it is the contribution before. When some
  object reports, for the shadow ray, a distance above \<open>ray_epsilon\<close> and strictly below
  the distance to the light, the contribution is unchanged.
\<close>

theorem direct_light_unless_occluded:
  "nearestIntersection ray_epsilon world ray = (Some ob, t) \<Longrightarrow>
     light_pos = Vec3 (Fin 8) (Fin 12) (Fin (- 6))
     \<and> (let hit_p = vadd (ray_o ray) (vscale (ray_d ray) t);
             normal = getNormal ob hit_p;
             light_vec = vsub light_pos hit_p;
             light_ln2 = dot light_vec light_vec;
             light_len = fsqrt light_ln2;
             light_dir = vscale light_vec (fdiv (Fin 1) light_len);
             refl_colour = vscale (vdivs (vscale (colour ob) (fmax (Fin 0) (dot normal light_dir)))
                                         light_ln2) (Fin 420);
             shadow = nearestIntersection ray_epsilon world (Ray hit_p light_dir)
         in (\<exists>step. loop_body ray_epsilon world pass hash_rnd ray throughput contribution bounce
                       = Some step
               \<and> contribution_after step
                   = (if fst shadow = None \<or> fge (snd shadow) light_len
                      then vadd contribution (vmul throughput refl_colour)
                      else contribution))
            \<and> ((\<exists>occ \<in> set (objects world).
                    fless ray_epsilon (intersect occ (Ray hit_p light_dir))
                  \<and> fless (intersect occ (Ray hit_p light_dir)) light_len)
                \<longrightarrow> (\<exists>step. loop_body ray_epsilon world pass hash_rnd ray throughput contribution bounce
                               = Some step
                         \<and> contribution_after step = contribution)))"
proof -
  assume hit: "nearestIntersection ray_epsilon world ray = (Some ob, t)"
  define hit_p where "hit_p = vadd (ray_o ray) (vscale (ray_d ray) t)"
  define light_vec where "light_vec = vsub light_pos hit_p"
  define light_len where "light_len = fsqrt (dot light_vec light_vec)"
  define light_dir where "light_dir = vscale light_vec (fdiv (Fin 1) light_len)"
  define refl_colour where
    "refl_colour = vscale (vdivs (vscale (colour ob) (fmax (Fin 0) (dot (getNormal ob hit_p) light_dir)))
                                         (dot light_vec light_vec)) (Fin 420)"
  define shadow where "shadow = nearestIntersection ray_epsilon world (Ray hit_p light_dir)"
  from loop_body_hit_contribution [OF hit, of pass hash_rnd throughput contribution bounce]
  obtain step where s: "loop_body ray_epsilon world pass hash_rnd ray throughput contribution bounce = Some step"
    and c: "contribution_after step
         = direct_lighting ray_epsilon world ob hit_p (getNormal ob hit_p) throughput contribution"
    by (auto simp: hit_p_def)
  have dl: "direct_lighting ray_epsilon world ob hit_p (getNormal ob hit_p) throughput contribution
        = (if fst shadow = None \<or> fge (snd shadow) light_len
           then vadd contribution (vmul throughput refl_colour) else contribution)"
    by (simp add: direct_lighting_def Let_def shadow_def light_dir_def light_len_def light_vec_def
        refl_colour_def split: prod.splits)
  have occl: "direct_lighting ray_epsilon world ob hit_p (getNormal ob hit_p) throughput contribution
        = contribution"
    if "\<exists>occ \<in> set (objects world).
            fless ray_epsilon (intersect occ (Ray hit_p light_dir))
          \<and> fless (intersect occ (Ray hit_p light_dir)) light_len"
  proof -
    from that obtain occ where "occ \<in> set (objects world)"
      "fless ray_epsilon (intersect occ (Ray hit_p light_dir))"
      "fless (intersect occ (Ray hit_p light_dir)) light_len" by blast
    from nearest_occluded [OF this] obtain ob' t' where
      "shadow = (Some ob', t')" "fless t' light_len" by (auto simp: shadow_def)
    then show ?thesis using dl by (simp add: fge_def fless_not_fle)
  qed
  have "light_pos = Vec3 (Fin 8) (Fin 12) (Fin (- 6))" by (simp add: light_pos_def)
  moreover have "\<exists>step. loop_body ray_epsilon world pass hash_rnd ray throughput contribution bounce
                       = Some step
               \<and> contribution_after step
                   = (if fst shadow = None \<or> fge (snd shadow) light_len
                      then vadd contribution (vmul throughput refl_colour)
                      else contribution)"
    using s c dl by auto
  moreover have "(\<exists>occ \<in> set (objects world).
                    fless ray_epsilon (intersect occ (Ray hit_p light_dir))
                  \<and> fless (intersect occ (Ray hit_p light_dir)) light_len)
                \<longrightarrow> (\<exists>step. loop_body ray_epsilon world pass hash_rnd ray throughput contribution bounce
                               = Some step
                         \<and> contribution_after step = contribution)"
    using s c occl by auto
  ultimately show ?thesis
    unfolding Let_def hit_p_def light_vec_def light_len_def light_dir_def refl_colour_def shadow_def
    by blast
qed


lemma enclosed_light_len:
  "fsqrt (dot (vsub light_pos (vadd (ray_o origin_ray) (vscale (ray_d origin_ray) (Fin 1))))
              (vsub light_pos (vadd (ray_o origin_ray) (vscale (ray_d origin_ray) (Fin 1)))))
     = Fin (sqrt 257)"
  by (simp add: light_pos_def origin_ray_def vsub_def vadd_def vscale_def dot_def fsub_def)

theorem direct_light_unless_occluded_witness:
  "nearestIntersection (Fin (1 / 1000)) enclosed_scene origin_ray
       = (Some (const_object (Fin 1) 1), Fin 1)
   \<and> fless (Fin (1 / 1000)) (Fin 1) \<and> fless (Fin 1) (Fin (sqrt 257))
   \<and> (\<exists>step. loop_body (Fin (1 / 1000)) enclosed_scene 0 (Fin 0) origin_ray
                   (vec_of (Fin 1)) (vec_of (Fin 0)) 0 = Some step
           \<and> contribution_after step = vec_of (Fin 0))"
proof -
  have occ: "const_object (Fin 1) 1 \<in> set (objects enclosed_scene)"
    "\<And>r. intersect (const_object (Fin 1) 1) r = Fin 1"
    by (simp_all add: enclosed_scene_def const_object_def)
  have lt: "fless (Fin (1 / 1000)) (Fin 1)" "fless (Fin 1) (Fin (sqrt 257))" by simp_all
  have prem: "\<exists>occ \<in> set (objects enclosed_scene).
                 fless (Fin (1 / 1000)) (intersect occ r) \<and> fless (intersect occ r) (Fin (sqrt 257))" for r
    using occ(1) lt by (intro bexI [of _ "const_object (Fin 1) 1"]) (simp_all add: occ(2))
  from direct_light_unless_occluded [OF enclosed_scene_hit [of origin_ray],
      of 0 "Fin 0" "vec_of (Fin 1)" "vec_of (Fin 0)" 0]
  have "\<exists>step. loop_body (Fin (1 / 1000)) enclosed_scene 0 (Fin 0) origin_ray
                   (vec_of (Fin 1)) (vec_of (Fin 0)) 0 = Some step
           \<and> contribution_after step = vec_of (Fin 0)"
    unfolding Let_def enclosed_light_len using prem by blast
  with lt enclosed_scene_hit show ?thesis by blast
qed


lemma near_scene_hit:
  "nearestIntersection (Fin (1 / 1000)) near_scene near_ray = (Some near_object, Fin 1)"
  by (simp add: nearestIntersection_def near_scene_def near_object_def near_ray_def
      fgreater_def real_inf_def Let_def)

lemma near_scene_shadow:
  "ray_o r \<noteq> Vec3 (Fin 8) (Fin 12) (Fin (- 8)) \<Longrightarrow>
     nearestIntersection (Fin (1 / 1000)) near_scene r = (None, real_inf)"
  by (simp add: nearestIntersection_def near_scene_def near_object_def
      fgreater_def real_inf_def Let_def)

text \<open>
  The claim as stated, for every occluder strictly between the hit point and the light,
  fails: a surface that the shadow ray meets at the distance 1/2000, with the light at
  the distance 1 and \<open>ray_epsilon\<close> 1/1000, is not above \<open>ray_epsilon\<close> and does not
  shadow; the light adds 420 to every channel.
\<close>

theorem thin_occluder_counterexample:
  "nearestIntersection (Fin (1 / 1000)) near_scene near_ray = (Some near_object, Fin 1)
   \<and> vadd (ray_o near_ray) (vscale (ray_d near_ray) (Fin 1)) = Vec3 (Fin 8) (Fin 12) (Fin (- 7))
   \<and> fsqrt (dot (vsub light_pos (Vec3 (Fin 8) (Fin 12) (Fin (- 7))))
                 (vsub light_pos (Vec3 (Fin 8) (Fin 12) (Fin (- 7))))) = Fin 1
   \<and> intersect near_object (Ray (Vec3 (Fin 8) (Fin 12) (Fin (- 7))) (Vec3 (Fin 0) (Fin 0) (Fin 1)))
       = Fin (1 / 2000)
   \<and> fless (Fin 0) (Fin (1 / 2000)) \<and> fless (Fin (1 / 2000)) (Fin 1)
   \<and> map_option contribution_after
         (loop_body (Fin (1 / 1000)) near_scene 0 (Fin 0) near_ray (vec_of (Fin 1)) (vec_of (Fin 0)) 0)
       = Some (Vec3 (Fin 420) (Fin 420) (Fin 420))"
proof -
  have hp: "vadd (ray_o near_ray) (vscale (ray_d near_ray) (Fin 1)) = Vec3 (Fin 8) (Fin 12) (Fin (- 7))"
    by (simp add: near_ray_def vadd_def vscale_def)
  have len: "fsqrt (dot (vsub light_pos (Vec3 (Fin 8) (Fin 12) (Fin (- 7))))
                 (vsub light_pos (Vec3 (Fin 8) (Fin 12) (Fin (- 7))))) = Fin 1"
    by (simp add: light_pos_def vsub_def dot_def fsub_def)
  have dl: "direct_lighting (Fin (1 / 1000)) near_scene near_object (Vec3 (Fin 8) (Fin 12) (Fin (- 7)))
              (Vec3 (Fin 0) (Fin 0) (Fin 1)) (vec_of (Fin 1)) (vec_of (Fin 0))
            = Vec3 (Fin 420) (Fin 420) (Fin 420)"
    by (simp add: direct_lighting_def Let_def near_scene_shadow light_pos_def vsub_def dot_def
        fsub_def vscale_def vdivs_def vadd_def vmul_def vec_of_def fmax_def near_object_def)
  have gn: "getNormal near_object p = Vec3 (Fin 0) (Fin 0) (Fin 1)" for p
    by (simp add: near_object_def)
  from loop_body_hit_contribution [OF near_scene_hit, of 0 "Fin 0" "vec_of (Fin 1)" "vec_of (Fin 0)" 0]
  have "map_option contribution_after
         (loop_body (Fin (1 / 1000)) near_scene 0 (Fin 0) near_ray (vec_of (Fin 1)) (vec_of (Fin 0)) 0)
       = Some (Vec3 (Fin 420) (Fin 420) (Fin 420))"
    by (auto simp: hp dl gn)
  moreover have "intersect near_object (Ray (Vec3 (Fin 8) (Fin 12) (Fin (- 7))) (Vec3 (Fin 0) (Fin 0) (Fin 1)))
       = Fin (1 / 2000)"
    by (simp add: near_object_def)
  ultimately show ?thesis using near_scene_hit hp len by simp
qed

section \<open>Signs of the accumulated colour\<close>

lemma fadd_NaN [simp]: "fadd a NaN = NaN" "fadd NaN a = NaN"
  by (cases a; simp)+

lemma fmul_NaN [simp]: "fmul a NaN = NaN" "fmul NaN a = NaN"
  by (cases a; simp)+

lemma fdiv_NaN [simp]: "fdiv a NaN = NaN" "fdiv NaN a = NaN"
  by (cases a; simp)+

lemma not_negative_cases:
  "not_negative a \<longleftrightarrow> a = NaN \<or> a = PInf \<or> (\<exists>r. a = Fin r \<and> 0 \<le> r)"
  by (cases a) (auto simp: not_negative_def)






















text \<open>Facts of the scene \<open>opposite_scene\<close>, in which a channel becomes NaN.\<close>

lemma uintToUnitReal_double: "uintToUnitReal True v = Fin (real (unat v) * (1 / 2 ^ 32))"
  by (simp add: uintToUnitReal_def Let_def)

lemma hash_random_double_finite: "\<exists>h. hash_random True x y frame width height = Fin h"
  unfolding hash_random_def uintToUnitReal_double by blast

lemma wrap01_Fin: "\<exists>w. wrap01 (Fin a) (Fin b) = Fin w"
  by (simp add: wrap01_def fsub_def)

lemma sphere_point_finite: "\<exists>a b c. sphere_point (Fin u) (Fin v) = Vec3 (Fin a) (Fin b) (Fin c)"
  by (auto simp: sphere_point_def Let_def fmax_def fsub_def)










lemma opposite_object_finite:
  "(\<exists>t. intersect opposite_object r = Fin t)
   \<and> (\<exists>a b c. getNormal opposite_object p = Vec3 (Fin a) (Fin b) (Fin c))"
proof -
  obtain h where h: "hash_random True 0 0 0 1 1 = Fin h"
    using hash_random_double_finite by blast
  obtain w where w: "wrap01 (Fin 0) (Fin h) = Fin w" using wrap01_Fin by blast
  obtain a b c where sp: "sphere_point (Fin w) (Fin w) = Vec3 (Fin a) (Fin b) (Fin c)"
    using sphere_point_finite by blast
  have "getNormal opposite_object p = Vec3 (Fin (- a)) (Fin (- b)) (Fin (- c))"
    by (simp add: opposite_object_def opposite_normal_def Let_def h w sp vscale_def)
  moreover have "\<exists>t. intersect opposite_object r = Fin t"
    by (simp add: opposite_object_def)
  ultimately show ?thesis by blast
qed



end
